theory Spec2Isabelle
  imports Complex_Main "HOL-Library.AList"
begin

section \<open>The OpenAI multi-account plugin: data model\<close>

text \<open>
  The repository holds three revisions of one plugin file. The current one
  (\<^verbatim>\<open>src/unnamed/part_001\<close>, verbs list / save / del / load) is embedded in full; the two
  older ones (\<^verbatim>\<open>src/unnamed/part_002\<close> and \<^verbatim>\<open>src/plugins/openai-multi.ts\<close>) share its helper
  functions (the oldest takes both arguments of \<^verbatim>\<open>isSameOauth\<close> as required) and differ in
  the command handler, which is embedded as well.

  Strings are lists of characters standing for the code units of a JavaScript string;
  a character is one of the 256 code units up to U+00FF. Numbers in JSON are integers.

  A JavaScript object is the association list of its own properties: \<open>map_of\<close> reads a
  key (the first entry for a key is the property, a later entry for the same key is never
  seen), \<open>AList.update\<close> assigns an own property, \<open>AList.delete\<close> is \<^verbatim>\<open>delete obj[k]\<close>, and
  the order of the list stands for the order of \<^verbatim>\<open>Object.keys\<close>, which the handler only
  ever sorts. What the two files hold is untyped: the storage file is cast to
  \<^verbatim>\<open>StorageFile\<close> after three tests and its entries are read as they are.
\<close>

datatype json =
    JNull
  | JBool bool
  | JNum int
  | JStr string
  | JArr "json list"
  | JObj "(string \<times> json) list"

text \<open>
  What a property read with a computed key (\<^verbatim>\<open>storage.profiles[name]\<close>) can give:
  \<^verbatim>\<open>undefined\<close>, a value of the document, or a built-in member that the object inherits
  from its prototype (a function such as \<^verbatim>\<open>constructor\<close> or \<^verbatim>\<open>toString\<close>, or the prototype
  itself for \<^verbatim>\<open>__proto__\<close>). Such a member is truthy and has no property \<^verbatim>\<open>oauth\<close>, the
  one property that the handler reads from it.
\<close>

datatype jsval = Undefined | Val json | Inherited

text \<open>\<^verbatim>\<open>StoredOAuthProfile["oauth"]\<close>: optional fields are \<open>None\<close> when the key is absent.\<close>

record OAuth =
  refresh :: string
  access :: string
  expires :: int
  enterpriseUrl :: "string option"
  accountId :: "string option"

record StoredOAuthProfile =
  name :: string
  oauth :: OAuth
  savedAt :: string

text \<open>
  \<^verbatim>\<open>StorageFile\<close> is a compile-time type only: a value of it is the parsed document that
  passed the tests of \<open>loadStorage\<close>, with whatever else the file held.
\<close>

type_synonym StorageFile = json

text \<open>
  What the two files can hold. \<open>Missing\<close>: \<^verbatim>\<open>file.exists()\<close> is false; \<open>NotJson\<close>:
  \<^verbatim>\<open>file.json()\<close> rejects; \<open>Content\<close>: the parsed document.
\<close>

datatype 'a disk_file = Missing | NotJson | Content 'a

datatype path = STORAGE_PATH | AUTH_PATH

text \<open>One constructor for every \<^verbatim>\<open>throw\<close> of the source and for the errors of the runtime.\<close>

datatype js_error =
    FileNotFound path
  | SyntaxError
  | TypeError
  | InvalidStorageFormat
  | NoAuthEntry
  | NotOauth
  | InvalidOauthPayload
  | NoActiveLogin
  | Usage string
  | AuthSeemsInvalid
  | ProfileExists string
  | ProfileNotFound string
  | ProfileNotFoundUseList string
  | MustBeNonEmpty string
  | InvalidSelection string
  | UnknownProfile string
  | RangeError

text \<open>
  A text shown to the user. The catch boundaries show \<^verbatim>\<open>`Error: ${message}`\<close> or
  \<^verbatim>\<open>`OpenAI multi-account error: ${message}`\<close>, kept as \<open>ErrorMessage prefix e\<close> for the
  error \<open>e\<close> caught.
\<close>

datatype message = Plain string | ErrorMessage string js_error

record toast =
  message :: message
  variant :: string
  duration :: "int option"

datatype part = TextPart message

text \<open>
  The effects of a handler run, in order: the calls on \<^verbatim>\<open>Bun.file\<close>, \<^verbatim>\<open>Bun.write\<close> (with the
  document written), \<^verbatim>\<open>client.tui.showToast\<close> and \<^verbatim>\<open>client.auth.set\<close> (provider id and the
  body as it is serialised: a key whose value is \<^verbatim>\<open>undefined\<close> is not sent).
\<close>

datatype event =
    Exists path
  | ReadJson path
  | WriteJson path json
  | ShowToast toast
  | AuthSet string "(string \<times> json) list"

record state =
  storage_file :: "json disk_file"
  auth_file :: "json disk_file"
  events :: "event list"
  parts :: "part list"

text \<open>
  The host: \<^verbatim>\<open>String.prototype.localeCompare\<close>, \<^verbatim>\<open>new Date().toISOString()\<close>,
  \<^verbatim>\<open>Buffer.from(_, "base64").toString("utf8")\<close>, \<^verbatim>\<open>JSON.parse\<close> (\<open>None\<close> when it throws),
  \<^verbatim>\<open>Number\<close> of a string and \<^verbatim>\<open>String\<close> of a number; and for the oldest revision the text
  of a value that is not a string inside a template literal (\<open>None\<close> when the conversion
  throws), \<^verbatim>\<open>new Date(v).toISOString()\<close> (\<open>None\<close> when it throws a RangeError) and the text
  of \<^verbatim>\<open>STORAGE_PATH\<close>, which comes from the environment.
\<close>

datatype jsnumber = NaN | PosInfinity | NegInfinity | Finite rat

record host =
  localeCompare :: "string \<Rightarrow> string \<Rightarrow> int"
  nowISO :: string
  base64ToUtf8 :: "string \<Rightarrow> string"
  JSON_parse :: "string \<Rightarrow> json option"
  Number :: "string \<Rightarrow> jsnumber"
  String :: "jsnumber \<Rightarrow> string"
  templateText :: "json option \<Rightarrow> string option"
  dateToISO :: "json option \<Rightarrow> string option"
  storagePath :: string

subsection \<open>Computations that log effects and may throw\<close>

type_synonym 'a io = "state \<Rightarrow> (js_error + 'a) \<times> state"

definition io_return :: "'a \<Rightarrow> 'a io" where
  "io_return x = (\<lambda>s. (Inr x, s))"

definition io_throw :: "js_error \<Rightarrow> 'a io" where
  "io_throw e = (\<lambda>s. (Inl e, s))"

definition io_of :: "js_error + 'a \<Rightarrow> 'a io" where
  "io_of r = (\<lambda>s. (r, s))"

definition io_bind :: "'a io \<Rightarrow> ('a \<Rightarrow> 'b io) \<Rightarrow> 'b io" where
  "io_bind m f = (\<lambda>s. case m s of (Inl e, s') \<Rightarrow> (Inl e, s') | (Inr x, s') \<Rightarrow> f x s')"

definition io_catch :: "'a io \<Rightarrow> (js_error \<Rightarrow> 'a io) \<Rightarrow> 'a io" where
  "io_catch m f = (\<lambda>s. case m s of (Inl e, s') \<Rightarrow> f e s' | (Inr x, s') \<Rightarrow> (Inr x, s'))"

definition emit :: "event \<Rightarrow> unit io" where
  "emit ev = (\<lambda>s. (Inr (), s\<lparr>events := events s @ [ev]\<rparr>))"

definition set_parts :: "part list \<Rightarrow> unit io" where
  "set_parts ps = (\<lambda>s. (Inr (), s\<lparr>parts := ps\<rparr>))"

subsection \<open>Values\<close>

text \<open>
  A property read \<^verbatim>\<open>v.k\<close> with one of the fixed keys of the source on a value other than
  \<^verbatim>\<open>null\<close>: \<open>None\<close> is \<^verbatim>\<open>undefined\<close>. (None of those keys is a built-in member of an
  object, an array, a string, a number or a boolean.)
\<close>

fun getProp :: "json \<Rightarrow> string \<Rightarrow> json option" where
  "getProp (JObj kvs) k = map_of kvs k"
| "getProp _ k = None"

text \<open>The same read on a value that may be \<^verbatim>\<open>undefined\<close> or \<^verbatim>\<open>null\<close>, where it throws.\<close>

fun readProp :: "json option \<Rightarrow> string \<Rightarrow> js_error + json option" where
  "readProp None k = Inl TypeError"
| "readProp (Some JNull) k = Inl TypeError"
| "readProp (Some v) k = Inr (getProp v k)"

text \<open>
  The same read on the result of a read with a computed key (on an inherited member the
  key is always \<^verbatim>\<open>oauth\<close>).
\<close>

fun memberOf :: "jsval \<Rightarrow> string \<Rightarrow> js_error + json option" where
  "memberOf Undefined k = Inl TypeError"
| "memberOf (Val v) k = readProp (Some v) k"
| "memberOf Inherited k = Inr None"

fun truthy_json :: "json option \<Rightarrow> bool" where
  "truthy_json None = False"
| "truthy_json (Some JNull) = False"
| "truthy_json (Some (JBool b)) = b"
| "truthy_json (Some (JNum n)) = (n \<noteq> 0)"
| "truthy_json (Some (JStr s)) = (s \<noteq> [])"
| "truthy_json (Some (JArr _)) = True"
| "truthy_json (Some (JObj _)) = True"

fun truthy_val :: "jsval \<Rightarrow> bool" where
  "truthy_val Undefined = False"
| "truthy_val (Val v) = truthy_json (Some v)"
| "truthy_val Inherited = True"

text \<open>Truthiness of an optional string: \<^verbatim>\<open>undefined\<close> and \<^verbatim>\<open>""\<close> are falsy.\<close>

fun truthy :: "string option \<Rightarrow> bool" where
  "truthy None = False"
| "truthy (Some s) = (s \<noteq> [])"

fun optString :: "json option \<Rightarrow> string option" where
  "optString (Some (JStr s)) = Some s"
| "optString _ = None"

fun typeof :: "json option \<Rightarrow> string" where
  "typeof None = ''undefined''"
| "typeof (Some JNull) = ''object''"
| "typeof (Some (JBool _)) = ''boolean''"
| "typeof (Some (JNum _)) = ''number''"
| "typeof (Some (JStr _)) = ''string''"
| "typeof (Some (JArr _)) = ''object''"
| "typeof (Some (JObj _)) = ''object''"

subsection \<open>Objects read and written with a computed key\<close>

text \<open>
  The members every object inherits from \<^verbatim>\<open>Object.prototype\<close>, and those an array inherits
  from \<^verbatim>\<open>Array.prototype\<close> (ECMAScript 2023).
\<close>

definition objectPrototypeKeys :: "string list" where
  "objectPrototypeKeys =
     [''constructor'', ''hasOwnProperty'', ''isPrototypeOf'', ''propertyIsEnumerable'',
      ''toLocaleString'', ''toString'', ''valueOf'', ''__proto__'',
      ''__defineGetter__'', ''__defineSetter__'', ''__lookupGetter__'', ''__lookupSetter__'']"

definition arrayPrototypeKeys :: "string list" where
  "arrayPrototypeKeys =
     [''at'', ''concat'', ''copyWithin'', ''entries'', ''every'', ''fill'', ''filter'', ''find'',
      ''findIndex'', ''findLast'', ''findLastIndex'', ''flat'', ''flatMap'', ''forEach'',
      ''includes'', ''indexOf'', ''join'', ''keys'', ''lastIndexOf'', ''map'', ''pop'', ''push'',
      ''reduce'', ''reduceRight'', ''reverse'', ''shift'', ''slice'', ''some'', ''sort'',
      ''splice'', ''toReversed'', ''toSorted'', ''toSpliced'', ''unshift'', ''values'', ''with'']"

text \<open>The own keys of an object, each once, in the order of their first entry.\<close>

fun ownKeys :: "(string \<times> json) list \<Rightarrow> string list" where
  "ownKeys [] = []"
| "ownKeys ((k, v) # kvs) = k # filter (\<lambda>x. x \<noteq> k) (ownKeys kvs)"

text \<open>
  The key of the element \<open>i\<close> of an array, \<^verbatim>\<open>String(i)\<close>; and the index that a key stands
  for: the key is an array index when it is the text of a whole number below
  \<^verbatim>\<open>2^32 - 1\<close>.
\<close>

definition indexKey :: "host \<Rightarrow> nat \<Rightarrow> string" where
  "indexKey h i = String h (Finite (of_nat i))"

definition arrayIndex :: "host \<Rightarrow> string \<Rightarrow> nat option" where
  "arrayIndex h k =
     (case Number h k of
        Finite q \<Rightarrow>
          if of_int \<lfloor>q\<rfloor> = q \<and> 0 \<le> q \<and> q < 4294967295 \<and> String h (Finite q) = k
          then Some (nat \<lfloor>q\<rfloor>) else None
      | _ \<Rightarrow> None)"

text \<open>
  \<^verbatim>\<open>Object.keys(v)\<close>, \<^verbatim>\<open>v[k]\<close>, \<^verbatim>\<open>v[k] = x\<close> and \<^verbatim>\<open>delete v[k]\<close> (the module is strict code) for
  the value \<open>v\<close> of \<^verbatim>\<open>storage.profiles\<close>, which after \<open>loadStorage\<close> is an object or an
  array. The last two give the value of \<open>v\<close> after the statement, as \<^verbatim>\<open>JSON.stringify\<close>
  writes it: a property set on an array under a key that is no index is not written, a
  hole of an array is written as \<^verbatim>\<open>null\<close>, and assigning \<^verbatim>\<open>__proto__\<close> sets the prototype
  and creates no property. On \<^verbatim>\<open>undefined\<close> and \<^verbatim>\<open>null\<close> all four throw. A string, a number
  or a boolean cannot be the value here, since \<open>loadStorage\<close> refuses it; such a value
  is taken to have no members of its own, and of the inherited ones only those of
  \<^verbatim>\<open>Object.prototype\<close>.
\<close>

fun Object_keys :: "host \<Rightarrow> json option \<Rightarrow> js_error + string list" where
  "Object_keys h None = Inl TypeError"
| "Object_keys h (Some JNull) = Inl TypeError"
| "Object_keys h (Some (JObj kvs)) = Inr (ownKeys kvs)"
| "Object_keys h (Some (JArr xs)) = Inr (map (indexKey h) [0..<length xs])"
| "Object_keys h (Some _) = Inr []"

fun readKey :: "host \<Rightarrow> json option \<Rightarrow> string \<Rightarrow> js_error + jsval" where
  "readKey h None k = Inl TypeError"
| "readKey h (Some JNull) k = Inl TypeError"
| "readKey h (Some (JObj kvs)) k =
     Inr (case map_of kvs k of
            Some v \<Rightarrow> Val v
          | None \<Rightarrow> if k \<in> set objectPrototypeKeys then Inherited else Undefined)"
| "readKey h (Some (JArr xs)) k =
     Inr (case arrayIndex h k of
            Some i \<Rightarrow> if i < length xs then Val (xs ! i) else Undefined
          | None \<Rightarrow>
              if k = ''length'' then Val (JNum (int (length xs)))
              else if k \<in> set arrayPrototypeKeys \<or> k \<in> set objectPrototypeKeys then Inherited
              else Undefined)"
| "readKey h (Some _) k = Inr (if k \<in> set objectPrototypeKeys then Inherited else Undefined)"

fun assignKey :: "host \<Rightarrow> json option \<Rightarrow> string \<Rightarrow> json \<Rightarrow> js_error + json" where
  "assignKey h None k x = Inl TypeError"
| "assignKey h (Some JNull) k x = Inl TypeError"
| "assignKey h (Some (JObj kvs)) k x =
     Inr (JObj (if map_of kvs k = None \<and> k = ''__proto__'' then kvs else AList.update k x kvs))"
| "assignKey h (Some (JArr xs)) k x =
     (case arrayIndex h k of
        Some i \<Rightarrow>
          Inr (JArr (if i < length xs then xs[i := x]
                     else xs @ replicate (i - length xs) JNull @ [x]))
      | None \<Rightarrow> if k = ''length'' then Inl RangeError else Inr (JArr xs))"
| "assignKey h (Some _) k x = Inl TypeError"

fun deleteKey :: "host \<Rightarrow> json option \<Rightarrow> string \<Rightarrow> js_error + json" where
  "deleteKey h None k = Inl TypeError"
| "deleteKey h (Some JNull) k = Inl TypeError"
| "deleteKey h (Some (JObj kvs)) k = Inr (JObj (AList.delete k kvs))"
| "deleteKey h (Some (JArr xs)) k =
     (case arrayIndex h k of
        Some i \<Rightarrow> Inr (JArr (if i < length xs then xs[i := JNull] else xs))
      | None \<Rightarrow> if k = ''length'' then Inl TypeError else Inr (JArr xs))"
| "deleteKey h (Some v) k = Inr v"

text \<open>
  The storage document after one of the two statements above: \<^verbatim>\<open>storage.profiles\<close> is the
  object that was changed in place.
\<close>

fun withProfiles :: "StorageFile \<Rightarrow> json \<Rightarrow> StorageFile" where
  "withProfiles (JObj kvs) p = JObj (AList.update ''profiles'' p kvs)"
| "withProfiles v p = v"

text \<open>
  The object literals that the handler stores: the credential as
  \<open>readOpenAiAuthFromAuthFile\<close> builds it (an optional field is a key only when it was
  set), and \<^verbatim>\<open>{ name, oauth, savedAt }\<close>.
\<close>

definition encodeOAuth :: "OAuth \<Rightarrow> json" where
  "encodeOAuth c =
     JObj ([(''refresh'', JStr (refresh c)),
            (''access'', JStr (access c)),
            (''expires'', JNum (expires c))]
           @ (case enterpriseUrl c of None \<Rightarrow> [] | Some u \<Rightarrow> [(''enterpriseUrl'', JStr u)])
           @ (case accountId c of None \<Rightarrow> [] | Some a \<Rightarrow> [(''accountId'', JStr a)]))"

definition encodeProfile :: "StoredOAuthProfile \<Rightarrow> json" where
  "encodeProfile p =
     JObj [(''name'', JStr (name p)), (''oauth'', encodeOAuth (oauth p)),
           (''savedAt'', JStr (savedAt p))]"

subsection \<open>Files\<close>

definition PROVIDER_ID :: string where
  "PROVIDER_ID = ''openai''"

definition COMMAND :: string where
  "COMMAND = ''oai''"

definition EMAIL_CLAIM_KEY :: string where
  "EMAIL_CLAIM_KEY = ''https://api.openai.com/profile''"

definition readJsonFile :: "path \<Rightarrow> (state \<Rightarrow> 'a disk_file) \<Rightarrow> 'a io" where
  "readJsonFile p sel =
     io_bind (emit (Exists p)) (\<lambda>_ s.
       case sel s of
         Missing \<Rightarrow> io_throw (FileNotFound p) s
       | NotJson \<Rightarrow> io_bind (emit (ReadJson p)) (\<lambda>_. io_throw SyntaxError) s
       | Content d \<Rightarrow> io_bind (emit (ReadJson p)) (\<lambda>_. io_return d) s)"

text \<open>
  \<open>loadStorage\<close>: the three tests on the parsed document, which is returned as it is when
  it passes them. On the document \<^verbatim>\<open>null\<close> the first property read throws.
\<close>

definition loadStorage :: "StorageFile io" where
  "loadStorage =
     io_bind (emit (Exists STORAGE_PATH)) (\<lambda>_ s.
       case storage_file s of
         Missing \<Rightarrow> io_return (JObj [(''version'', JNum 1), (''profiles'', JObj [])]) s
       | NotJson \<Rightarrow> io_bind (emit (ReadJson STORAGE_PATH)) (\<lambda>_. io_throw SyntaxError) s
       | Content parsed \<Rightarrow>
           io_bind (emit (ReadJson STORAGE_PATH)) (\<lambda>_.
             case parsed of
               JNull \<Rightarrow> io_throw TypeError
             | _ \<Rightarrow>
                 if getProp parsed ''version'' \<noteq> Some (JNum 1) \<or>
                    typeof (getProp parsed ''profiles'') \<noteq> ''object'' \<or>
                    getProp parsed ''profiles'' = Some JNull
                 then io_throw InvalidStorageFormat
                 else io_return parsed) s)"

text \<open>
  \<^verbatim>\<open>writeJsonFile(STORAGE_PATH, storage)\<close>: the file then parses back to the value written.
\<close>

definition saveStorage :: "StorageFile \<Rightarrow> unit io" where
  "saveStorage st =
     (\<lambda>s. (Inr (),
        s\<lparr>storage_file := Content st, events := events s @ [WriteJson STORAGE_PATH st]\<rparr>))"

subsection \<open>The active-profile rule\<close>

text \<open>\<^verbatim>\<open>isSameOauth(a, b?)\<close>; \<open>None\<close> for \<open>b\<close> is the argument left \<^verbatim>\<open>undefined\<close>.\<close>

definition isSameOauth :: "OAuth \<Rightarrow> OAuth option \<Rightarrow> bool" where
  "isSameOauth a b =
     (case b of
        None \<Rightarrow> False
      | Some b' \<Rightarrow>
          if truthy (accountId a) \<and> truthy (accountId b') then accountId a = accountId b'
          else refresh a = refresh b')"

text \<open>
  The same three lines when the first argument is \<^verbatim>\<open>p.oauth\<close> as read from the storage
  file, whatever it holds: the reads \<^verbatim>\<open>a.accountId\<close> and \<^verbatim>\<open>a.refresh\<close> throw on \<^verbatim>\<open>undefined\<close>
  and \<^verbatim>\<open>null\<close>, and \<^verbatim>\<open>===\<close> holds between a value of the file and a string when the value is
  that string.
\<close>

definition isSameOauth_stored :: "json option \<Rightarrow> OAuth option \<Rightarrow> js_error + bool" where
  "isSameOauth_stored a b =
     (case b of
        None \<Rightarrow> Inr False
      | Some b' \<Rightarrow>
          (case readProp a ''accountId'' of
             Inl e \<Rightarrow> Inl e
           | Inr acc \<Rightarrow>
               if truthy_json acc \<and> truthy (accountId b')
               then Inr (acc = map_option JStr (accountId b'))
               else
                 (case readProp a ''refresh'' of
                    Inl e \<Rightarrow> Inl e
                  | Inr r \<Rightarrow> Inr (r = Some (JStr (refresh b'))))))"

subsection \<open>Strings and arguments\<close>

text \<open>
  White space as \<^verbatim>\<open>trim\<close>, the class \<^verbatim>\<open>\s\<close> and \<^verbatim>\<open>parseInt\<close> see it, among the 256
  characters: tab, line feed, vertical tab, form feed, carriage return, space and the
  no-break space U+00A0.
\<close>

definition isSpace :: "char \<Rightarrow> bool" where
  "isSpace c =
     (c = CHR 0x09 \<or> c = CHR 0x0A \<or> c = CHR 0x0B \<or> c = CHR 0x0C \<or> c = CHR 0x0D \<or>
      c = CHR 0x20 \<or> c = CHR 0xA0)"

definition trim :: "string \<Rightarrow> string" where
  "trim s = rev (dropWhile isSpace (rev (dropWhile isSpace s)))"

text \<open>
  \<^verbatim>\<open>toLowerCase\<close>: the letters A to Z, and the capital letters U+00C0 to U+00DE (all but
  the multiplication sign U+00D7), go to the letter 32 places on; other characters are
  kept.
\<close>

definition upperLetters :: string where
  "upperLetters =
     ''ABCDEFGHIJKLMNOPQRSTUVWXYZ'' @
     [CHR 0xC0, CHR 0xC1, CHR 0xC2, CHR 0xC3, CHR 0xC4, CHR 0xC5, CHR 0xC6, CHR 0xC7,
      CHR 0xC8, CHR 0xC9, CHR 0xCA, CHR 0xCB, CHR 0xCC, CHR 0xCD, CHR 0xCE, CHR 0xCF,
      CHR 0xD0, CHR 0xD1, CHR 0xD2, CHR 0xD3, CHR 0xD4, CHR 0xD5, CHR 0xD6, CHR 0xD8,
      CHR 0xD9, CHR 0xDA, CHR 0xDB, CHR 0xDC, CHR 0xDD, CHR 0xDE]"

definition lowerLetters :: string where
  "lowerLetters =
     ''abcdefghijklmnopqrstuvwxyz'' @
     [CHR 0xE0, CHR 0xE1, CHR 0xE2, CHR 0xE3, CHR 0xE4, CHR 0xE5, CHR 0xE6, CHR 0xE7,
      CHR 0xE8, CHR 0xE9, CHR 0xEA, CHR 0xEB, CHR 0xEC, CHR 0xED, CHR 0xEE, CHR 0xEF,
      CHR 0xF0, CHR 0xF1, CHR 0xF2, CHR 0xF3, CHR 0xF4, CHR 0xF5, CHR 0xF6, CHR 0xF8,
      CHR 0xF9, CHR 0xFA, CHR 0xFB, CHR 0xFC, CHR 0xFD, CHR 0xFE]"

definition lowerChar :: "char \<Rightarrow> char" where
  "lowerChar c = (case map_of (zip upperLetters lowerLetters) c of Some d \<Rightarrow> d | None \<Rightarrow> c)"

definition toLowerCase :: "string \<Rightarrow> string" where
  "toLowerCase s = map lowerChar s"

text \<open>\<^verbatim>\<open>.replace(/^\//, "")\<close>: one leading slash is removed.\<close>

fun stripSlash :: "string \<Rightarrow> string" where
  "stripSlash [] = []"
| "stripSlash (c # cs) = (if c = CHR ''/'' then cs else c # cs)"

text \<open>\<^verbatim>\<open>.split(/\s+/)\<close>: the pieces between maximal runs of white space.\<close>

fun splitSpaces :: "string \<Rightarrow> string list" where
  "splitSpaces [] = [[]]"
| "splitSpaces (c # cs) =
     (if isSpace c then
        (case cs of
           [] \<Rightarrow> [[], []]
         | d # _ \<Rightarrow> if isSpace d then splitSpaces cs else [] # splitSpaces cs)
      else
        (case splitSpaces cs of
           [] \<Rightarrow> [[c]]
         | w # ws \<Rightarrow> (c # w) # ws))"

definition parseArgs :: "string \<Rightarrow> string list" where
  "parseArgs raw = filter (\<lambda>w. w \<noteq> []) (splitSpaces (trim raw))"

text \<open>\<^verbatim>\<open>xs[i] ?? d\<close>.\<close>

definition nth_or :: "'a list \<Rightarrow> nat \<Rightarrow> 'a \<Rightarrow> 'a" where
  "nth_or xs i d = (if i < length xs then xs ! i else d)"

text \<open>\<^verbatim>\<open>.split(".")\<close> and \<^verbatim>\<open>.join(sep)\<close>.\<close>

fun splitOn :: "char \<Rightarrow> string \<Rightarrow> string list" where
  "splitOn d [] = [[]]"
| "splitOn d (c # cs) =
     (if c = d then [] # splitOn d cs
      else
        (case splitOn d cs of
           [] \<Rightarrow> [[c]]
         | w # ws \<Rightarrow> (c # w) # ws))"

fun join :: "string \<Rightarrow> string list \<Rightarrow> string" where
  "join sep [] = []"
| "join sep [x] = x"
| "join sep (x # y # ys) = x @ sep @ join sep (y # ys)"

text \<open>
  \<^verbatim>\<open>parseInt(s, 10)\<close>: leading white space is skipped, one sign is read, then the longest
  run of decimal digits; \<open>None\<close> is \<^verbatim>\<open>NaN\<close> (no digit). The handler only compares the
  result with \<^verbatim>\<open>0\<close> and with an array length and indexes with it when it is in range, and
  on those tests the exact integer and the double that JavaScript computes agree.
\<close>

definition isDigit :: "char \<Rightarrow> bool" where
  "isDigit c = ((48::nat) \<le> of_char c \<and> of_char c \<le> (57::nat))"

definition digitsValue :: "string \<Rightarrow> int" where
  "digitsValue ds = foldl (\<lambda>a c. 10 * a + (int (of_char c) - 48)) 0 ds"

definition parseInt10 :: "string \<Rightarrow> int option" where
  "parseInt10 s =
     (let s1 = dropWhile isSpace s;
          negative = (case s1 of [] \<Rightarrow> False | c # _ \<Rightarrow> c = CHR ''-'');
          s2 = (case s1 of [] \<Rightarrow> [] | c # r \<Rightarrow> if c = CHR ''-'' \<or> c = CHR ''+'' then r else s1);
          ds = takeWhile isDigit s2
      in if ds = [] then None
         else Some (if negative then - digitsValue ds else digitsValue ds))"

text \<open>
  \<^verbatim>\<open>.sort((a, b) => a.localeCompare(b))\<close> on the keys: a stable sort by the host's
  comparator, written as insertion sort.
\<close>

fun insertBy :: "(string \<Rightarrow> string \<Rightarrow> int) \<Rightarrow> string \<Rightarrow> string list \<Rightarrow> string list" where
  "insertBy cmp x [] = [x]"
| "insertBy cmp x (y # ys) = (if cmp x y \<le> 0 then x # y # ys else y # insertBy cmp x ys)"

definition sortedNames :: "host \<Rightarrow> string list \<Rightarrow> string list" where
  "sortedNames h ks = foldr (insertBy (localeCompare h)) ks []"

subsection \<open>The auth file\<close>

definition readOpenAiAuthFromAuthFile :: "json \<Rightarrow> js_error + OAuth" where
  "readOpenAiAuthFromAuthFile authFile =
     (case authFile of
        JNull \<Rightarrow> Inl TypeError
      | _ \<Rightarrow>
        (case getProp authFile PROVIDER_ID of
           None \<Rightarrow> Inl NoAuthEntry
         | Some entry \<Rightarrow>
             if \<not> truthy_json (Some entry) then Inl NoAuthEntry
             else if getProp entry ''type'' \<noteq> Some (JStr ''oauth'') then Inl NotOauth
             else
               (case (getProp entry ''refresh'', getProp entry ''access'', getProp entry ''expires'') of
                  (Some (JStr r), Some (JStr a), Some (JNum x)) \<Rightarrow>
                    Inr \<lparr>refresh = r, access = a, expires = x,
                         enterpriseUrl = optString (getProp entry ''enterpriseUrl''),
                         accountId = optString (getProp entry ''accountId'')\<rparr>
                | _ \<Rightarrow> Inl InvalidOauthPayload)))"

subsection \<open>The token inspector\<close>

definition base64UrlToUtf8 :: "host \<Rightarrow> string \<Rightarrow> string" where
  "base64UrlToUtf8 h input =
     (let normalized =
            map (\<lambda>c. if c = CHR ''_'' then CHR ''/'' else c)
              (map (\<lambda>c. if c = CHR ''-'' then CHR ''+'' else c) input);
          padded = normalized @ drop ((length normalized + 3) mod 4) ''===''
      in base64ToUtf8 h padded)"

text \<open>The body of the \<^verbatim>\<open>try\<close> block: what it returns, or what it throws.\<close>

definition emailOfPayload :: "host \<Rightarrow> string list \<Rightarrow> js_error + string option" where
  "emailOfPayload h ps =
     (let payloadRaw = base64UrlToUtf8 h (nth_or ps 1 [])
      in case JSON_parse h payloadRaw of
           None \<Rightarrow> Inl SyntaxError
         | Some payload \<Rightarrow>
             (case payload of
                JNull \<Rightarrow> Inl TypeError
              | _ \<Rightarrow>
                  let email =
                        (case getProp payload EMAIL_CLAIM_KEY of
                           None \<Rightarrow> None
                         | Some JNull \<Rightarrow> None
                         | Some profile \<Rightarrow> getProp profile ''email'')
                  in Inr (optString email)))"

definition extractEmailFromAccessToken :: "host \<Rightarrow> string \<Rightarrow> js_error + string option" where
  "extractEmailFromAccessToken h acc =
     (let ps = splitOn CHR ''.'' acc in
      if length ps < 2 then Inr None
      else
        (case emailOfPayload h ps of
           Inl e \<Rightarrow> Inr None
         | Inr r \<Rightarrow> Inr r))"

text \<open>
  The call \<^verbatim>\<open>extractEmailFromAccessToken(profile.oauth.access)\<close> on a value of the storage
  file: \<^verbatim>\<open>access.split\<close> is a function only when the value is a string.
\<close>

fun extractEmail_stored :: "host \<Rightarrow> json option \<Rightarrow> js_error + string option" where
  "extractEmail_stored h (Some (JStr acc)) = extractEmailFromAccessToken h acc"
| "extractEmail_stored h _ = Inl TypeError"

section \<open>The command handler of the current revision\<close>

text \<open>Sequencing of steps that may throw and have no effect.\<close>

fun bindE :: "js_error + 'a \<Rightarrow> ('a \<Rightarrow> js_error + 'b) \<Rightarrow> js_error + 'b" where
  "bindE (Inl e) f = Inl e"
| "bindE (Inr x) f = f x"

definition showToast :: "toast \<Rightarrow> unit io" where
  "showToast t = emit (ShowToast t)"

definition quote :: string where
  "quote = [CHR 0x27]"

definition ensureActiveAuth :: "OAuth io" where
  "ensureActiveAuth =
     io_catch
       (io_bind (readJsonFile AUTH_PATH auth_file) (\<lambda>authFile.
          io_of (readOpenAiAuthFromAuthFile authFile)))
       (\<lambda>e. io_throw NoActiveLogin)"

definition loadStorageAndAuth :: "(StorageFile \<times> OAuth option) io" where
  "loadStorageAndAuth =
     io_bind loadStorage (\<lambda>storage.
       io_bind
         (io_catch
            (io_bind (readJsonFile AUTH_PATH auth_file) (\<lambda>auth.
               case auth of
                 JNull \<Rightarrow> io_throw TypeError
               | _ \<Rightarrow>
                   if truthy_json (getProp auth PROVIDER_ID)
                   then io_bind (io_of (readOpenAiAuthFromAuthFile auth)) (\<lambda>a. io_return (Some a))
                   else io_return None))
            (\<lambda>e. io_return None))
         (\<lambda>activeOauth. io_return (storage, activeOauth)))"

text \<open>
  The \<^verbatim>\<open>names.map\<close> of the list action: \<^verbatim>\<open>`[${n}]`\<close> for the active profile, the bare
  name otherwise. \<^verbatim>\<open>p.oauth\<close> is read only when there is a live credential.
\<close>

fun markActive ::
  "host \<Rightarrow> json option \<Rightarrow> OAuth option \<Rightarrow> string list \<Rightarrow> js_error + string list" where
  "markActive h profs activeOauth [] = Inr []"
| "markActive h profs activeOauth (n # ns) =
     bindE (readKey h profs n) (\<lambda>p.
     bindE (if activeOauth = None then Inr False
            else bindE (memberOf p ''oauth'') (\<lambda>a. isSameOauth_stored a activeOauth)) (\<lambda>active.
     bindE (markActive h profs activeOauth ns) (\<lambda>r.
     Inr ((if active then ''['' @ n @ '']'' else n) # r))))"

definition list_action :: "host \<Rightarrow> unit io" where
  "list_action h =
     io_bind loadStorageAndAuth (\<lambda>(storage, activeOauth).
     io_bind (io_of (Object_keys h (getProp storage ''profiles''))) (\<lambda>ks.
       let names = sortedNames h ks in
       io_bind
         (if length names = 0 then
            showToast \<lparr>message = Plain (''No profiles. Use '' @ quote @ ''/oai save <name>'' @ quote @ '' to add one.''),
                       variant = ''info'', duration = Some 5000\<rparr>
          else
            io_bind (io_of (markActive h (getProp storage ''profiles'') activeOauth names)) (\<lambda>marked.
              showToast \<lparr>message = Plain (''Profiles: '' @ join '', '' marked @ ''. Use '' @ quote @ ''/oai load <name>'' @ quote @ ''.''),
                         variant = ''info'', duration = Some 8000\<rparr>))
         (\<lambda>_. set_parts [])))"

text \<open>
  The save action. \<^verbatim>\<open>if (storage.profiles[name])\<close> is a read with a computed key, so a
  name that the object inherits counts as taken.
\<close>

definition save_action :: "host \<Rightarrow> string list \<Rightarrow> unit io" where
  "save_action h argv =
     (let nm = nth_or argv 1 [] in
      if nm = [] then io_throw (Usage ''Usage: /oai save <name>'')
      else
        io_bind ensureActiveAuth (\<lambda>cred.
          if access cred = [] \<or> refresh cred = [] then io_throw AuthSeemsInvalid
          else
            io_bind loadStorage (\<lambda>storage.
            io_bind (io_of (readKey h (getProp storage ''profiles'') nm)) (\<lambda>existing.
              if truthy_val existing then io_throw (ProfileExists nm)
              else
                io_bind
                  (io_of (assignKey h (getProp storage ''profiles'') nm
                            (encodeProfile \<lparr>name = nm, oauth = cred, savedAt = nowISO h\<rparr>))) (\<lambda>profiles'.
                io_bind (saveStorage (withProfiles storage profiles')) (\<lambda>_.
                io_bind (io_of (extractEmailFromAccessToken h (access cred))) (\<lambda>email.
                io_bind
                  (showToast \<lparr>message = Plain
                       (if truthy email
                        then ''Saved profile '' @ quote @ nm @ quote @ '' ('' @ the email @ '')''
                        else ''Saved profile '' @ quote @ nm @ quote),
                     variant = ''success'', duration = None\<rparr>) (\<lambda>_.
                set_parts []))))))))"

text \<open>
  The selector of the del and load actions (the same lines in both): the token is read
  with \<^verbatim>\<open>parseInt\<close>; a number from 1 to the count of names picks the name at that place
  of the sorted list, anything else leaves the token as the name.
\<close>

definition resolveByParseInt :: "string list \<Rightarrow> string \<Rightarrow> string" where
  "resolveByParseInt names tok =
     (case parseInt10 tok of
        None \<Rightarrow> tok
      | Some asNum \<Rightarrow>
          if asNum > 0 \<and> asNum \<le> int (length names) then names ! (nat asNum - 1) else tok)"

definition del_action :: "host \<Rightarrow> string list \<Rightarrow> unit io" where
  "del_action h argv =
     (let nameOrNum = nth_or argv 1 [] in
      if nameOrNum = [] then io_throw (Usage ''Usage: /oai del <name>'')
      else
        io_bind loadStorage (\<lambda>storage.
        io_bind (io_of (Object_keys h (getProp storage ''profiles''))) (\<lambda>ks.
          let names = sortedNames h ks;
              targetName = resolveByParseInt names nameOrNum
          in
            io_bind (io_of (readKey h (getProp storage ''profiles'') targetName)) (\<lambda>existing.
              if \<not> truthy_val existing then io_throw (ProfileNotFound targetName)
              else
                io_bind (io_of (deleteKey h (getProp storage ''profiles'') targetName)) (\<lambda>profiles'.
                io_bind (saveStorage (withProfiles storage profiles')) (\<lambda>_.
                io_bind
                  (showToast \<lparr>message = Plain (''Removed profile '' @ quote @ targetName @ quote),
                     variant = ''success'', duration = None\<rparr>) (\<lambda>_.
                set_parts [])))))))"

text \<open>
  The body of \<^verbatim>\<open>client.auth.set\<close>: the object literal, key by key, with the spread of
  \<^verbatim>\<open>enterpriseUrl\<close> when that field is truthy. \<open>authBody\<close> is the body for a credential
  of the declared type; \<open>authBody_stored\<close> is the same literal evaluated on \<^verbatim>\<open>profile.oauth\<close>
  as the storage file holds it, where the first read throws on \<^verbatim>\<open>undefined\<close> and \<^verbatim>\<open>null\<close>.
\<close>

definition authBody :: "OAuth \<Rightarrow> (string \<times> json) list" where
  "authBody c =
     [(''type'', JStr ''oauth''),
      (''refresh'', JStr (refresh c)),
      (''access'', JStr (access c)),
      (''expires'', JNum (expires c))]
     @ (if truthy (enterpriseUrl c) then [(''enterpriseUrl'', JStr (the (enterpriseUrl c)))] else [])"

definition sent :: "string \<Rightarrow> json option \<Rightarrow> (string \<times> json) list" where
  "sent k v = (case v of None \<Rightarrow> [] | Some x \<Rightarrow> [(k, x)])"

definition authBody_stored :: "json option \<Rightarrow> js_error + (string \<times> json) list" where
  "authBody_stored cred =
     bindE (readProp cred ''refresh'') (\<lambda>r.
     bindE (readProp cred ''access'') (\<lambda>a.
     bindE (readProp cred ''expires'') (\<lambda>x.
     bindE (readProp cred ''enterpriseUrl'') (\<lambda>u.
       Inr ([(''type'', JStr ''oauth'')] @ sent ''refresh'' r @ sent ''access'' a @ sent ''expires'' x
            @ (if truthy_json u then sent ''enterpriseUrl'' u else []))))))"

definition load_action :: "host \<Rightarrow> string list \<Rightarrow> unit io" where
  "load_action h argv =
     (let targetName = nth_or argv 1 [] in
      if targetName = [] then io_throw (Usage ''Usage: /oai load <name>'')
      else
        io_bind loadStorage (\<lambda>storage.
        io_bind (io_of (Object_keys h (getProp storage ''profiles''))) (\<lambda>ks.
          let names = sortedNames h ks;
              resolvedName = resolveByParseInt names targetName
          in
            io_bind (io_of (readKey h (getProp storage ''profiles'') resolvedName)) (\<lambda>profile.
              if \<not> truthy_val profile then io_throw (ProfileNotFound resolvedName)
              else
                io_bind (io_of (memberOf profile ''oauth'')) (\<lambda>cred.
                io_bind (io_of (authBody_stored cred)) (\<lambda>body.
                io_bind (emit (AuthSet PROVIDER_ID body)) (\<lambda>_.
                io_bind (io_of (bindE (readProp cred ''access'') (extractEmail_stored h))) (\<lambda>email.
                io_bind
                  (showToast \<lparr>message = Plain
                       (if truthy email
                        then ''Active: '' @ resolvedName @ '' ('' @ the email @ '')''
                        else ''Active: '' @ resolvedName),
                     variant = ''success'', duration = None\<rparr>) (\<lambda>_.
                set_parts [])))))))))"

definition unknown_action :: "unit io" where
  "unknown_action =
     io_bind
       (showToast \<lparr>message = Plain ''Unknown command. Available: list, save, load, del'',
          variant = ''error'', duration = Some 5000\<rparr>) (\<lambda>_.
     set_parts [])"

text \<open>The \<^verbatim>\<open>catch\<close> boundary: one error toast, and the chat output emptied.\<close>

definition errorBoundary :: "js_error \<Rightarrow> unit io" where
  "errorBoundary err =
     io_bind (showToast \<lparr>message = ErrorMessage ''Error: '' err, variant = ''error'', duration = None\<rparr>) (\<lambda>_.
     set_parts [])"

definition normalizeAction :: "string \<Rightarrow> string" where
  "normalizeAction rawSub =
     (if rawSub = [] \<or> rawSub = ''list'' then ''list''
      else if rawSub = ''save'' then ''save''
      else if rawSub = ''del'' then ''del''
      else if rawSub = ''load'' then ''load''
      else ''unknown'')"

text \<open>\<^verbatim>\<open>"command.execute.before"\<close> of \<^verbatim>\<open>src/unnamed/part_001\<close>.\<close>

definition command_execute_before :: "host \<Rightarrow> string \<Rightarrow> string \<Rightarrow> unit io" where
  "command_execute_before h command arguments =
     (let cmd = toLowerCase (stripSlash (trim command)) in
      if cmd \<noteq> COMMAND then io_return ()
      else
        let argv = parseArgs arguments;
            rawSub = toLowerCase (nth_or argv 0 []);
            action = normalizeAction rawSub
        in
          io_catch
            (if action = ''list'' then list_action h
             else if action = ''save'' then save_action h argv
             else if action = ''del'' then del_action h argv
             else if action = ''load'' then load_action h argv
             else if action = ''unknown'' then unknown_action
             else io_return ())
            errorBoundary)"

section \<open>The command handler of the two older revisions\<close>

subsection \<open>\<^verbatim>\<open>src/unnamed/part_002\<close>\<close>

definition normalizeSub :: "string \<Rightarrow> string" where
  "normalizeSub sub =
     (if sub = ''help'' then []
      else if sub = ''switch'' then []
      else if sub = ''list'' then ''_list''
      else if sub = ''current'' then ''_current''
      else sub)"

definition list_action_r2 :: "host \<Rightarrow> unit io" where
  "list_action_r2 h =
     io_bind loadStorageAndAuth (\<lambda>(storage, activeOauth).
     io_bind (io_of (Object_keys h (getProp storage ''profiles''))) (\<lambda>ks.
       let names = sortedNames h ks in
       io_bind
         (if length names = 0 then
            showToast \<lparr>message = Plain (''No profiles. Use '' @ quote @ ''/oai save <name>'' @ quote @ '' to add one.''),
                       variant = ''info'', duration = Some 5000\<rparr>
          else
            io_bind (io_of (markActive h (getProp storage ''profiles'') activeOauth names)) (\<lambda>marked.
              showToast \<lparr>message = Plain (''Profiles: '' @ join '', '' marked @ ''. Use '' @ quote @ ''/oai <name>'' @ quote @ '' to switch.''),
                         variant = ''info'', duration = Some 8000\<rparr>))
         (\<lambda>_. set_parts [])))"

text \<open>The save branch: no look-up of the name before the assignment.\<close>

definition save_action_r2 :: "host \<Rightarrow> string list \<Rightarrow> unit io" where
  "save_action_r2 h argv =
     (let nm = nth_or argv 1 [] in
      if nm = [] then io_throw (Usage ''Usage: /oai save <profile_name>'')
      else
        io_bind ensureActiveAuth (\<lambda>cred.
          if access cred = [] \<or> refresh cred = [] then io_throw AuthSeemsInvalid
          else
            io_bind loadStorage (\<lambda>storage.
            io_bind
              (io_of (assignKey h (getProp storage ''profiles'') nm
                        (encodeProfile \<lparr>name = nm, oauth = cred, savedAt = nowISO h\<rparr>))) (\<lambda>profiles'.
            io_bind (saveStorage (withProfiles storage profiles')) (\<lambda>_.
            io_bind (io_of (extractEmailFromAccessToken h (access cred))) (\<lambda>email.
            io_bind
              (showToast \<lparr>message = Plain
                   (if truthy email
                    then ''Saved profile '' @ quote @ nm @ quote @ '' ('' @ the email @ '')''
                    else ''Saved profile '' @ quote @ nm @ quote),
                 variant = ''success'', duration = None\<rparr>) (\<lambda>_.
            set_parts [])))))))"

definition remove_action_r2 :: "host \<Rightarrow> string list \<Rightarrow> unit io" where
  "remove_action_r2 h argv =
     (let selector = nth_or argv 1 [] in
      if selector = [] then io_throw (Usage ''Usage: /oai rm <name|number>'')
      else
        io_bind loadStorage (\<lambda>storage.
        io_bind (io_of (Object_keys h (getProp storage ''profiles''))) (\<lambda>ks.
          let names = sortedNames h ks;
              nm = resolveByParseInt names selector
          in
            io_bind (io_of (readKey h (getProp storage ''profiles'') nm)) (\<lambda>existing.
              if \<not> truthy_val existing then io_throw (ProfileNotFound nm)
              else
                io_bind (io_of (deleteKey h (getProp storage ''profiles'') nm)) (\<lambda>profiles'.
                io_bind (saveStorage (withProfiles storage profiles')) (\<lambda>_.
                io_bind
                  (showToast \<lparr>message = Plain (''Removed profile '' @ quote @ nm @ quote),
                     variant = ''success'', duration = None\<rparr>) (\<lambda>_.
                set_parts [])))))))"

text \<open>
  The activate branch: every first token that is no other verb is the selector
  (\<^verbatim>\<open>argv.shift()\<close> for \<^verbatim>\<open>use\<close> changes \<^verbatim>\<open>argv\<close> only, which is not read again).
\<close>

definition activate_r2 :: "host \<Rightarrow> string \<Rightarrow> unit io" where
  "activate_r2 h selector =
     (if selector = [] then io_throw (Usage ''Usage: /oai <name|number>'')
      else
        io_bind loadStorage (\<lambda>storage.
        io_bind (io_of (Object_keys h (getProp storage ''profiles''))) (\<lambda>ks.
          let names = sortedNames h ks;
              nm = resolveByParseInt names selector
          in
            io_bind (io_of (readKey h (getProp storage ''profiles'') nm)) (\<lambda>profile.
              if \<not> truthy_val profile then io_throw (ProfileNotFoundUseList nm)
              else
                io_bind (io_of (memberOf profile ''oauth'')) (\<lambda>cred.
                io_bind (io_of (authBody_stored cred)) (\<lambda>body.
                io_bind (emit (AuthSet PROVIDER_ID body)) (\<lambda>_.
                io_bind (io_of (bindE (readProp cred ''access'') (extractEmail_stored h))) (\<lambda>email.
                io_bind
                  (showToast \<lparr>message = Plain
                       (if truthy email
                        then ''Active: '' @ nm @ '' ('' @ the email @ '')''
                        else ''Active: '' @ nm),
                     variant = ''success'', duration = None\<rparr>) (\<lambda>_.
                set_parts [])))))))))"

definition command_execute_before_r2 :: "host \<Rightarrow> string \<Rightarrow> string \<Rightarrow> unit io" where
  "command_execute_before_r2 h command arguments =
     io_bind
       (showToast \<lparr>message = Plain (''OpenAIMultiAccountPlugin: command.execute.before called for command: '' @ command),
          variant = ''info'', duration = Some 1000\<rparr>) (\<lambda>_.
     let cmd = toLowerCase (stripSlash (trim command)) in
     if cmd \<noteq> COMMAND then io_return ()
     else
       let argv = parseArgs arguments;
           sub = nth_or argv 0 [];
           normalizedSub = normalizeSub sub
       in
         io_catch
           (if normalizedSub = [] \<or> normalizedSub = ''_list'' then list_action_r2 h
            else if normalizedSub = ''save'' then save_action_r2 h argv
            else if normalizedSub = ''d'' \<or> normalizedSub = ''rm'' \<or> normalizedSub = ''remove''
            then remove_action_r2 h argv
            else activate_r2 h normalizedSub)
           errorBoundary)"

subsection \<open>\<^verbatim>\<open>src/plugins/openai-multi.ts\<close>\<close>

definition assertNonEmpty :: "string \<Rightarrow> string \<Rightarrow> unit io" where
  "assertNonEmpty v label = (if trim v = [] then io_throw (MustBeNonEmpty label) else io_return ())"

definition newline :: string where
  "newline = [CHR 0x0A]"

text \<open>\<^verbatim>\<open>isSameOauth(a, b)\<close> of this revision takes both credentials.\<close>

definition isSameOauth_r1 :: "OAuth \<Rightarrow> OAuth \<Rightarrow> bool" where
  "isSameOauth_r1 a b =
     (if truthy (accountId a) \<and> truthy (accountId b) then accountId a = accountId b
      else refresh a = refresh b)"

text \<open>
  \<^verbatim>\<open>new Date(v).toISOString()\<close>, and the text of a value inside a template literal: a
  string is its own text.
\<close>

definition toISO :: "host \<Rightarrow> json option \<Rightarrow> js_error + string" where
  "toISO h v = (case dateToISO h v of None \<Rightarrow> Inl RangeError | Some t \<Rightarrow> Inr t)"

definition display :: "host \<Rightarrow> json option \<Rightarrow> js_error + string" where
  "display h v =
     (case v of
        Some (JStr s) \<Rightarrow> Inr s
      | _ \<Rightarrow> (case templateText h v of None \<Rightarrow> Inl TypeError | Some t \<Rightarrow> Inr t))"

definition formatProfileLine :: "host \<Rightarrow> jsval \<Rightarrow> js_error + string" where
  "formatProfileLine h p =
     bindE (memberOf p ''oauth'') (\<lambda>cred.
     bindE (readProp cred ''expires'') (\<lambda>x.
     bindE (toISO h x) (\<lambda>exp'.
     bindE (readProp cred ''accountId'') (\<lambda>a.
     bindE (if truthy_json a then bindE (display h a) (\<lambda>t. Inr ('' accountId='' @ t)) else Inr []) (\<lambda>acct.
     bindE (readProp cred ''access'') (\<lambda>acc.
     bindE (extractEmail_stored h acc) (\<lambda>email.
     bindE (memberOf p ''name'') (\<lambda>n.
     bindE (display h n) (\<lambda>shownName.
     bindE (memberOf p ''savedAt'') (\<lambda>sv.
     bindE (display h sv) (\<lambda>shownSavedAt.
       Inr (''- '' @ shownName @ (if truthy email then '' email='' @ the email else [])
            @ '' (expires='' @ exp' @ acct @ '', savedAt='' @ shownSavedAt @ '')''))))))))))))"

text \<open>The lines of the menu, numbered from \<open>idx + 1\<close>.\<close>

fun menuLines ::
  "host \<Rightarrow> json option \<Rightarrow> OAuth \<Rightarrow> nat \<Rightarrow> string list \<Rightarrow> js_error + string list" where
  "menuLines h profs activeOauth idx [] = Inr []"
| "menuLines h profs activeOauth idx (n # ns) =
     bindE (readKey h profs n) (\<lambda>p.
     bindE (memberOf p ''oauth'') (\<lambda>cred.
     bindE (isSameOauth_stored cred (Some activeOauth)) (\<lambda>active.
     bindE (readProp cred ''access'') (\<lambda>acc.
     bindE (extractEmail_stored h acc) (\<lambda>email.
     bindE (menuLines h profs activeOauth (Suc idx) ns) (\<lambda>r.
       Inr (((if active then ''*'' else '' '')
             @ '' '' @ String h (Finite (of_nat (idx + 1))) @ '') '' @ n
             @ (if truthy email then '' ('' @ the email @ '')'' else [])) # r)))))))"

definition buildMenuText ::
  "host \<Rightarrow> string list \<Rightarrow> json option \<Rightarrow> OAuth \<Rightarrow> js_error + string" where
  "buildMenuText h names profs activeOauth =
     bindE (menuLines h profs activeOauth 0 names) (\<lambda>lines.
       Inr (join newline
              [''OpenAI accounts:'',
               (if length lines = 0 then ''(no saved profiles)'' else join newline lines),
               [],
               ''Actions:'',
               ''- /oai <number|name>        activate'',
               ''- /oai d <number>           delete'',
               ''- /oai save <name>          save current OpenAI OAuth'']))"

fun listLines ::
  "host \<Rightarrow> json option \<Rightarrow> OAuth \<Rightarrow> string list \<Rightarrow> js_error + string list" where
  "listLines h profs activeOauth [] = Inr []"
| "listLines h profs activeOauth (n # ns) =
     bindE (readKey h profs n) (\<lambda>p.
     bindE (memberOf p ''oauth'') (\<lambda>cred.
     bindE (isSameOauth_stored cred (Some activeOauth)) (\<lambda>active.
     bindE (formatProfileLine h p) (\<lambda>line.
     bindE (listLines h profs activeOauth ns) (\<lambda>r.
       Inr (((if active then ''* '' else ''  '') @ line) # r))))))"

definition readActiveOauth :: "OAuth io" where
  "readActiveOauth =
     io_bind (readJsonFile AUTH_PATH auth_file) (\<lambda>authFile.
       io_of (readOpenAiAuthFromAuthFile authFile))"

definition menu_r1 :: "host \<Rightarrow> unit io" where
  "menu_r1 h =
     io_bind loadStorage (\<lambda>storage.
     io_bind readActiveOauth (\<lambda>activeOauth.
     io_bind (io_of (Object_keys h (getProp storage ''profiles''))) (\<lambda>ks.
     io_bind (io_of (buildMenuText h (sortedNames h ks) (getProp storage ''profiles'') activeOauth)) (\<lambda>menu.
     set_parts [TextPart (Plain menu)]))))"

definition list_r1 :: "host \<Rightarrow> unit io" where
  "list_r1 h =
     io_bind loadStorage (\<lambda>storage.
     io_bind readActiveOauth (\<lambda>activeOauth.
     io_bind (io_of (Object_keys h (getProp storage ''profiles''))) (\<lambda>ks.
     io_bind (io_of (listLines h (getProp storage ''profiles'') activeOauth (sortedNames h ks))) (\<lambda>lines.
     set_parts [TextPart (Plain
        (if length lines = 0 then ''No saved profiles.''
         else join newline (''Saved OpenAI profiles:'' # lines)))]))))"

definition current_r1 :: "host \<Rightarrow> unit io" where
  "current_r1 h =
     io_bind readActiveOauth (\<lambda>cred.
     io_bind (io_of (toISO h (Some (JNum (expires cred))))) (\<lambda>exp'.
     set_parts [TextPart (Plain
        (''Active OpenAI auth: oauth (expires='' @ exp'
         @ (if truthy (accountId cred) then '', accountId='' @ the (accountId cred) else [])
         @ '')''))]))"

text \<open>The save branch: the entry is assigned whether or not the name is taken.\<close>

definition save_r1 :: "host \<Rightarrow> string list \<Rightarrow> unit io" where
  "save_r1 h argv =
     (let nm = nth_or argv 1 [] in
      io_bind (assertNonEmpty nm ''Profile name'') (\<lambda>_.
      io_bind readActiveOauth (\<lambda>cred.
      io_bind loadStorage (\<lambda>storage.
      io_bind
        (io_of (assignKey h (getProp storage ''profiles'') nm
                  (encodeProfile \<lparr>name = nm, oauth = cred, savedAt = nowISO h\<rparr>))) (\<lambda>profiles'.
      io_bind (saveStorage (withProfiles storage profiles')) (\<lambda>_.
      io_bind (set_parts [TextPart (Plain (''Saved profile '' @ quote @ nm @ quote @ '' to '' @ storagePath h))]) (\<lambda>_.
      io_bind (io_of (extractEmailFromAccessToken h (access cred))) (\<lambda>email.
      showToast \<lparr>message = Plain
           (if truthy email
            then ''OpenAI profile saved: '' @ nm @ '' ('' @ the email @ '')''
            else ''OpenAI profile saved: '' @ nm),
         variant = ''success'', duration = None\<rparr>))))))))"

text \<open>
  \<^verbatim>\<open>Number.isFinite(asNumber) && String(asNumber) === selector\<close>, and \<^verbatim>\<open>names[asNumber - 1]\<close>:
  the element when \<open>asNumber - 1\<close> is an index of the array, \<^verbatim>\<open>undefined\<close> otherwise.
\<close>

definition roundTrips :: "host \<Rightarrow> string \<Rightarrow> bool" where
  "roundTrips h selector =
     (case Number h selector of
        Finite q \<Rightarrow> String h (Finite q) = selector
      | _ \<Rightarrow> False)"

definition nameAt :: "string list \<Rightarrow> jsnumber \<Rightarrow> string option" where
  "nameAt names asNumber =
     (case asNumber of
        Finite q \<Rightarrow>
          if of_int \<lfloor>q\<rfloor> = q \<and> 1 \<le> q \<and> \<lfloor>q\<rfloor> \<le> int (length names)
          then Some (names ! (nat \<lfloor>q\<rfloor> - 1)) else None
      | _ \<Rightarrow> None)"

definition delete_r1 :: "host \<Rightarrow> string list \<Rightarrow> unit io" where
  "delete_r1 h argv =
     (let selector = nth_or argv 1 [] in
      io_bind (assertNonEmpty selector ''Profile number'') (\<lambda>_.
      io_bind loadStorage (\<lambda>storage.
      io_bind (io_of (Object_keys h (getProp storage ''profiles''))) (\<lambda>ks.
        let names = sortedNames h ks;
            nm = (if roundTrips h selector then nameAt names (Number h selector) else None)
        in
          if \<not> truthy nm then io_throw (InvalidSelection selector)
          else
            io_bind (io_of (readKey h (getProp storage ''profiles'') (the nm))) (\<lambda>existing.
              if \<not> truthy_val existing then io_throw (UnknownProfile (the nm))
              else
                io_bind (io_of (deleteKey h (getProp storage ''profiles'') (the nm))) (\<lambda>profiles'.
                io_bind (saveStorage (withProfiles storage profiles')) (\<lambda>_.
                io_bind (set_parts [TextPart (Plain (''Removed profile '' @ quote @ the nm @ quote))]) (\<lambda>_.
                showToast \<lparr>message = Plain (''OpenAI profile removed: '' @ the nm),
                   variant = ''success'', duration = None\<rparr>))))))))"

definition activate_r1 :: "host \<Rightarrow> string \<Rightarrow> unit io" where
  "activate_r1 h selector =
     io_bind (assertNonEmpty selector ''Profile name or number'') (\<lambda>_.
     io_bind loadStorage (\<lambda>storage.
     io_bind (io_of (Object_keys h (getProp storage ''profiles''))) (\<lambda>ks.
       let names = sortedNames h ks;
           nm = (if roundTrips h selector then nameAt names (Number h selector) else Some selector)
       in
         if \<not> truthy nm then io_throw (InvalidSelection selector)
         else
           io_bind (io_of (readKey h (getProp storage ''profiles'') (the nm))) (\<lambda>profile.
             if \<not> truthy_val profile then io_throw (UnknownProfile (the nm))
             else
               io_bind (io_of (memberOf profile ''oauth'')) (\<lambda>cred.
               io_bind (io_of (authBody_stored cred)) (\<lambda>body.
               io_bind (emit (AuthSet PROVIDER_ID body)) (\<lambda>_.
               io_bind (io_of (bindE (readProp cred ''access'') (extractEmail_stored h))) (\<lambda>email.
               io_bind
                 (set_parts [TextPart (Plain
                    (if truthy email then ''OpenAI active: '' @ the email
                     else ''Switched active OpenAI account to profile '' @ quote @ the nm @ quote))]) (\<lambda>_.
               showToast \<lparr>message = Plain
                    (if truthy email then ''OpenAI active: '' @ the email
                     else ''OpenAI active profile: '' @ the nm),
                  variant = ''success'', duration = None\<rparr>)))))))))"

text \<open>The \<^verbatim>\<open>catch\<close> boundary: the error text goes to the chat output, and the error is rethrown.\<close>

definition errorBoundary_r1 :: "js_error \<Rightarrow> unit io" where
  "errorBoundary_r1 err =
     io_bind (set_parts [TextPart (ErrorMessage ''OpenAI multi-account error: '' err)]) (\<lambda>_.
     io_bind (showToast \<lparr>message = Plain ''OpenAI multi-account error'', variant = ''error'', duration = None\<rparr>) (\<lambda>_.
     io_throw err))"

definition command_execute_before_r1 :: "host \<Rightarrow> string \<Rightarrow> string \<Rightarrow> unit io" where
  "command_execute_before_r1 h command arguments =
     (if command \<noteq> COMMAND then io_return ()
      else
        let argv = parseArgs arguments;
            sub = nth_or argv 0 [];
            normalizedSub = normalizeSub sub
        in
          io_catch
            (if normalizedSub = [] then menu_r1 h
             else if normalizedSub = ''_list'' then list_r1 h
             else if normalizedSub = ''_current'' then current_r1 h
             else if normalizedSub = ''save'' then save_r1 h argv
             else if normalizedSub = ''d'' \<or> normalizedSub = ''rm'' \<or> normalizedSub = ''remove''
             then delete_r1 h argv
             else activate_r1 h normalizedSub)
            errorBoundary_r1)"

section \<open>Inputs for the examples\<close>

text \<open>
  A host for the worked examples. Its comparator orders by code unit, which is how
  \<^verbatim>\<open>localeCompare\<close> orders the lower-case ASCII names and the digit strings used below.
  Its decoder and parser know one token payload, the text
  \<^verbatim>\<open>{"https://api.openai.com/profile":{"email":"a@b.c"}}\<close>; \<^verbatim>\<open>JSON.parse\<close> throws on
  every other text used below, none of which is JSON. Its \<^verbatim>\<open>Number\<close> reads a decimal
  natural number without leading zero and is \<^verbatim>\<open>NaN\<close> on the other tokens used below
  (words that are not numeric literals), and its \<^verbatim>\<open>String\<close> prints the numbers 0 to 9.
  No example below shows a value that is not a string or turns a value into a date.
\<close>

fun cmpCodeUnits :: "string \<Rightarrow> string \<Rightarrow> int" where
  "cmpCodeUnits [] [] = 0"
| "cmpCodeUnits [] (y # ys) = - 1"
| "cmpCodeUnits (x # xs) [] = 1"
| "cmpCodeUnits (x # xs) (y # ys) =
     (if (of_char x :: nat) < of_char y then - 1
      else if (of_char y :: nat) < of_char x then 1
      else cmpCodeUnits xs ys)"

definition dq :: string where
  "dq = [CHR 0x22]"

definition demoPayloadText :: string where
  "demoPayloadText =
     ''{'' @ dq @ ''https://api.openai.com/profile'' @ dq @ '':{'' @ dq @ ''email'' @ dq @ '':''
       @ dq @ ''a@b.c'' @ dq @ ''}}''"

definition demoPayload :: json where
  "demoPayload = JObj [(''https://api.openai.com/profile'', JObj [(''email'', JStr ''a@b.c'')])]"

definition demoToken :: string where
  "demoToken = ''hdr.eyJodHRwczovL2FwaS5vcGVuYWkuY29tL3Byb2ZpbGUiOnsiZW1haWwiOiJhQGIuYyJ9fQ.sig''"

definition demoHost :: host where
  "demoHost =
     \<lparr>localeCompare = cmpCodeUnits,
      nowISO = ''2026-01-01T00:00:00.000Z'',
      base64ToUtf8 = (\<lambda>s. if s = ''eyJodHRwczovL2FwaS5vcGVuYWkuY29tL3Byb2ZpbGUiOnsiZW1haWwiOiJhQGIuYyJ9fQ=='' then demoPayloadText else []),
      JSON_parse = (\<lambda>s. if s = demoPayloadText then Some demoPayload else None),
      Number =
        (\<lambda>s. if s \<noteq> [] \<and> list_all isDigit s \<and> (s = ''0'' \<or> hd s \<noteq> CHR ''0'')
             then Finite (of_int (digitsValue s)) else NaN),
      String =
        (\<lambda>n. case n of
               Finite q \<Rightarrow>
                 if of_int \<lfloor>q\<rfloor> = q \<and> 0 \<le> q \<and> q < 10 then [''0123456789'' ! nat \<lfloor>q\<rfloor>] else ''?''
             | _ \<Rightarrow> ''NaN''),
      templateText = (\<lambda>v. None),
      dateToISO = (\<lambda>v. None),
      storagePath = ''/home/u/.config/opencode/openai-accounts.json''\<rparr>"

text \<open>
  A stored credential, the live credential of another account in the auth file, and a
  state whose vault holds one profile for each of the given names (in that insertion
  order) while the chat output already has a part. \<open>vaultDoc ps\<close> is the storage document
  of a vault whose profiles \<open>ps\<close> are all of the declared type, as \<open>saveStorage\<close> writes it.
\<close>

definition storedCred :: OAuth where
  "storedCred =
     \<lparr>refresh = ''r1'', access = ''a1'', expires = 1000, enterpriseUrl = None,
      accountId = Some ''acct1''\<rparr>"

definition liveAuthFile :: json where
  "liveAuthFile =
     JObj [(''openai'',
            JObj [(''type'', JStr ''oauth''), (''refresh'', JStr ''r2''), (''access'', JStr ''a2''),
                  (''expires'', JNum 2000), (''accountId'', JStr ''acct2'')])]"

text \<open>The credential that \<open>readOpenAiAuthFromAuthFile\<close> reads from \<open>liveAuthFile\<close>.\<close>

definition liveCred :: OAuth where
  "liveCred =
     \<lparr>refresh = ''r2'', access = ''a2'', expires = 2000, enterpriseUrl = None,
      accountId = Some ''acct2''\<rparr>"

definition profileOf :: "string \<Rightarrow> StoredOAuthProfile" where
  "profileOf n = \<lparr>name = n, oauth = storedCred, savedAt = ''2025-12-31T00:00:00.000Z''\<rparr>"

definition encodeProfiles :: "(string \<times> StoredOAuthProfile) list \<Rightarrow> (string \<times> json) list" where
  "encodeProfiles ps = map (\<lambda>(k, p). (k, encodeProfile p)) ps"

definition vaultDoc :: "(string \<times> StoredOAuthProfile) list \<Rightarrow> json" where
  "vaultDoc ps = JObj [(''version'', JNum 1), (''profiles'', JObj (encodeProfiles ps))]"

definition stateWith :: "string list \<Rightarrow> state" where
  "stateWith ns =
     \<lparr>storage_file = Content (vaultDoc (map (\<lambda>n. (n, profileOf n)) ns)),
      auth_file = Content liveAuthFile,
      events = [],
      parts = [TextPart (Plain ''earlier output'')]\<rparr>"

text \<open>The sorted names that the handler computes for the vault \<open>vaultDoc ps\<close>.\<close>

definition namesOf :: "host \<Rightarrow> (string \<times> StoredOAuthProfile) list \<Rightarrow> string list" where
  "namesOf h ps = sortedNames h (ownKeys (encodeProfiles ps))"

section \<open>The selector as the specification words it\<close>

text \<open>
  For comparison with \<open>resolveByParseInt\<close>, the rule of the specification (section 4.4):
  a token that is a positive integer literal equal to its own printed form is a 1-based
  ordinal into the sorted names and fails when out of range; any other token is a name
  and fails when the vault has no such name. \<open>None\<close> is the failure.
\<close>

definition isPositiveIntegerLiteral :: "string \<Rightarrow> bool" where
  "isPositiveIntegerLiteral tok = (tok \<noteq> [] \<and> list_all isDigit tok \<and> hd tok \<noteq> CHR ''0'')"

definition spec_resolve :: "string list \<Rightarrow> string \<Rightarrow> string option" where
  "spec_resolve names tok =
     (if isPositiveIntegerLiteral tok then
        (if digitsValue tok \<le> int (length names) then Some (names ! (nat (digitsValue tok) - 1))
         else None)
      else if tok \<in> set names then Some tok else None)"

section \<open>Auxiliary definitions\<close>

text \<open>
  The toast of a successful load, for the name resolved and the credential written:
  \<^verbatim>\<open>`Active: ${resolvedName} (${email})`\<close> when the token inspector finds a non-empty
  email, \<^verbatim>\<open>`Active: ${resolvedName}`\<close> otherwise.
\<close>

definition activeToast :: "host \<Rightarrow> string \<Rightarrow> OAuth \<Rightarrow> toast" where
  "activeToast h nm cred =
     \<lparr>message = Plain
        (case extractEmailFromAccessToken h (access cred) of
           Inr (Some e) \<Rightarrow> if e \<noteq> [] then ''Active: '' @ nm @ '' ('' @ e @ '')'' else ''Active: '' @ nm
         | _ \<Rightarrow> ''Active: '' @ nm),
      variant = ''success'', duration = None\<rparr>"

text \<open>
  A step only appends effects; a step ends with a toast when it only appends effects and,
  if it returns normally, a toast is the last of them; a branch of the handler exits
  cleanly when moreover it leaves the chat output empty.
\<close>

definition appends :: "'a io \<Rightarrow> bool" where
  "appends m = (\<forall>s r s'. m s = (r, s') \<longrightarrow> (\<exists>evs. events s' = events s @ evs))"

definition toast_last :: "'a io \<Rightarrow> bool" where
  "toast_last m =
     (\<forall>s r s'. m s = (r, s') \<longrightarrow>
        (\<exists>evs. events s' = events s @ evs) \<and>
        ((\<exists>x. r = Inr x) \<longrightarrow> (\<exists>evs t. events s' = events s @ evs @ [ShowToast t])))"

definition clean_exit :: "unit io \<Rightarrow> bool" where
  "clean_exit m =
     (\<forall>s r s'. m s = (r, s') \<longrightarrow>
        (\<exists>evs. events s' = events s @ evs) \<and>
        (r = Inr () \<longrightarrow> parts s' = [] \<and> (\<exists>evs t. events s' = events s @ evs @ [ShowToast t])))"

section \<open>Properties\<close>

lemmas io_defs = io_return_def io_throw_def io_of_def io_bind_def io_catch_def emit_def
  set_parts_def showToast_def

subsection \<open>Loading the vault\<close>

text \<open>
  What passes the three tests: a document whose \<^verbatim>\<open>version\<close> is the number 1 and whose
  \<^verbatim>\<open>profiles\<close> is an object or an array. Every other document that is not \<^verbatim>\<open>null\<close> is
  refused with the invalid-format error; a present file that is not JSON, or is the
  document \<^verbatim>\<open>null\<close>, fails before the tests with the runtime's own error.
\<close>

lemma loadStorage_missing:
  "storage_file s = Missing \<Longrightarrow>
   loadStorage s =
     (Inr (JObj [(''version'', JNum 1), (''profiles'', JObj [])]),
      s\<lparr>events := events s @ [Exists STORAGE_PATH]\<rparr>)"
  by (simp add: loadStorage_def io_defs)

lemma loadStorage_unreadable:
  "(storage_file s = NotJson \<longrightarrow> fst (loadStorage s) = Inl SyntaxError) \<and>
   (storage_file s = Content JNull \<longrightarrow> fst (loadStorage s) = Inl TypeError)"
  by (simp add: loadStorage_def io_defs)

lemma typeof_object:
  "(typeof v = ''object'' \<and> v \<noteq> Some JNull) =
     ((\<exists>kvs. v = Some (JObj kvs)) \<or> (\<exists>xs. v = Some (JArr xs)))"
  by (cases v rule: typeof.cases) auto

lemma loadStorage_rejects:
  assumes "storage_file s = Content d" "d \<noteq> JNull"
      and "getProp d ''version'' \<noteq> Some (JNum 1) \<or>
           ((\<forall>kvs. getProp d ''profiles'' \<noteq> Some (JObj kvs)) \<and>
            (\<forall>xs. getProp d ''profiles'' \<noteq> Some (JArr xs)))"
  shows "fst (loadStorage s) = Inl InvalidStorageFormat"
  using assms typeof_object [of "getProp d ''profiles''"]
  by (cases d) (auto simp: loadStorage_def io_defs)

lemma loadStorage_accepts:
  assumes "storage_file s = Content d" "getProp d ''version'' = Some (JNum 1)"
      and "(\<exists>kvs. getProp d ''profiles'' = Some (JObj kvs)) \<or>
           (\<exists>xs. getProp d ''profiles'' = Some (JArr xs))"
  shows "loadStorage s =
           (Inr d, s\<lparr>events := events s @ [Exists STORAGE_PATH, ReadJson STORAGE_PATH]\<rparr>)"
  using assms
  by (cases d) (auto simp: loadStorage_def io_defs)

lemma loadStorage_valid:
  assumes "storage_file s = Content d \<and> getProp d ''version'' = Some (JNum 1) \<and>
           getProp d ''profiles'' = Some (JObj kvs)"
  shows "loadStorage s =
           (Inr d, s\<lparr>events := events s @ [Exists STORAGE_PATH, ReadJson STORAGE_PATH]\<rparr>)"
  using assms by (intro loadStorage_accepts) auto

lemma vaultDoc_holds:
  "getProp (vaultDoc ps) ''version'' = Some (JNum 1) \<and>
   getProp (vaultDoc ps) ''profiles'' = Some (JObj (encodeProfiles ps))"
  by (simp add: vaultDoc_def)

lemma loadStorage_returns_object:
  assumes "loadStorage s = (Inr d, s')"
  shows "(\<exists>kvs. getProp d ''profiles'' = Some (JObj kvs)) \<or>
         (\<exists>xs. getProp d ''profiles'' = Some (JArr xs))"
  using assms typeof_object [of "getProp d ''profiles''"]
  by (auto simp: loadStorage_def io_defs split: disk_file.splits json.splits if_splits)

text \<open>
  C3. A present file whose \<^verbatim>\<open>version\<close> is 1 and whose \<^verbatim>\<open>profiles\<close> is an array, which is
  no profile map, is returned by \<open>loadStorage\<close> as the vault: \<^verbatim>\<open>typeof\<close> of an array is
  \<^verbatim>\<open>"object"\<close>. A present file that holds \<^verbatim>\<open>null\<close> has no version tag and fails with a
  TypeError, not with the invalid-format error.
\<close>

theorem array_passes_storage_check:
  "(storage_file s = Content (JObj [(''version'', JNum 1), (''profiles'', JArr xs)]) \<longrightarrow>
      loadStorage s =
        (Inr (JObj [(''version'', JNum 1), (''profiles'', JArr xs)]),
         s\<lparr>events := events s @ [Exists STORAGE_PATH, ReadJson STORAGE_PATH]\<rparr>)) \<and>
   (storage_file s = Content JNull \<longrightarrow> fst (loadStorage s) = Inl TypeError)"
  by (simp add: loadStorage_def io_defs)

text \<open>The file \<^verbatim>\<open>{"version": 1, "profiles": []}\<close>.\<close>

theorem array_passes_storage_check_witness:
  "fst (loadStorage \<lparr>storage_file = Content (JObj [(''version'', JNum 1), (''profiles'', JArr [])]),
                      auth_file = Missing, events = [], parts = []\<rparr>)
     = Inr (JObj [(''version'', JNum 1), (''profiles'', JArr [])])"
  using array_passes_storage_check
          [of "\<lparr>storage_file = Content (JObj [(''version'', JNum 1), (''profiles'', JArr [])]),
                auth_file = Missing, events = [], parts = []\<rparr>" "[]"]
  by simp

text \<open>
  On such a vault \<^verbatim>\<open>/oai save work\<close> reports success and loses the profile: the entry is
  set as a property of the array, which \<^verbatim>\<open>JSON.stringify\<close> does not write.
\<close>

lemma save_into_array_is_lost:
  "snd (command_execute_before demoHost ''oai'' ''save work''
          \<lparr>storage_file = Content (JObj [(''version'', JNum 1), (''profiles'', JArr [])]),
           auth_file = Content liveAuthFile, events = [], parts = []\<rparr>) =
     \<lparr>storage_file = Content (JObj [(''version'', JNum 1), (''profiles'', JArr [])]),
      auth_file = Content liveAuthFile,
      events =
        [Exists AUTH_PATH, ReadJson AUTH_PATH, Exists STORAGE_PATH, ReadJson STORAGE_PATH,
         WriteJson STORAGE_PATH (JObj [(''version'', JNum 1), (''profiles'', JArr [])]),
         ShowToast \<lparr>message = Plain (''Saved profile '' @ quote @ ''work'' @ quote),
                    variant = ''success'', duration = None\<rparr>],
      parts = []\<rparr>"
  by code_simp

subsection \<open>The active-profile rule\<close>

text \<open>
  C6. When both credentials carry an account identifier (present and not the empty
  string) \<open>isSameOauth\<close> compares the identifiers; when one of them has none it compares
  the refresh tokens; so equal identifiers with different refresh tokens are the same
  account. The oldest revision's \<open>isSameOauth_r1\<close> is the same rule.
\<close>

theorem isSameOauth_rule:
  "(accountId a = Some x \<and> x \<noteq> [] \<and> accountId b = Some y \<and> y \<noteq> [] \<longrightarrow>
      isSameOauth a (Some b) = (x = y)) \<and>
   (accountId a = None \<or> accountId b = None \<longrightarrow>
      isSameOauth a (Some b) = (refresh a = refresh b)) \<and>
   (accountId a = Some x \<and> x \<noteq> [] \<and> accountId b = Some x \<and> refresh a \<noteq> refresh b \<longrightarrow>
      isSameOauth a (Some b))"
  by (auto simp: isSameOauth_def)

text \<open>
  The live credential \<^verbatim>\<open>{accountId: "acct1", refresh: "r1"}\<close> against a stored one with the
  same account and the refresh token \<^verbatim>\<open>"r2"\<close>; and two credentials without identifier.
\<close>

theorem isSameOauth_rule_witness:
  "isSameOauth
     \<lparr>refresh = ''r2'', access = ''a'', expires = 0, enterpriseUrl = None, accountId = Some ''acct1''\<rparr>
     (Some \<lparr>refresh = ''r1'', access = ''a'', expires = 0, enterpriseUrl = None,
            accountId = Some ''acct1''\<rparr>) \<and>
   \<not> isSameOauth
     \<lparr>refresh = ''r2'', access = ''a'', expires = 0, enterpriseUrl = None, accountId = None\<rparr>
     (Some \<lparr>refresh = ''r1'', access = ''a'', expires = 0, enterpriseUrl = None,
            accountId = Some ''acct1''\<rparr>)"
  using isSameOauth_rule
          [of "\<lparr>refresh = ''r2'', access = ''a'', expires = 0, enterpriseUrl = None,
                accountId = Some ''acct1''\<rparr>" "''acct1''"
              "\<lparr>refresh = ''r1'', access = ''a'', expires = 0, enterpriseUrl = None,
                accountId = Some ''acct1''\<rparr>" "''acct1''"]
        isSameOauth_rule
          [of "\<lparr>refresh = ''r2'', access = ''a'', expires = 0, enterpriseUrl = None,
                accountId = None\<rparr>" "''x''"
              "\<lparr>refresh = ''r1'', access = ''a'', expires = 0, enterpriseUrl = None,
                accountId = Some ''acct1''\<rparr>" "''y''"]
  by simp

lemma isSameOauth_r1_eq: "isSameOauth_r1 a b = isSameOauth a (Some b)"
  by (simp add: isSameOauth_r1_def isSameOauth_def)

text \<open>
  C10. With no live credential \<open>isSameOauth\<close> answers false; with an account identifier
  that is the empty string on either side it compares the refresh tokens.
\<close>

theorem isSameOauth_edges:
  "\<not> isSameOauth a None \<and>
   (accountId a = Some [] \<or> accountId b = Some [] \<longrightarrow>
      isSameOauth a (Some b) = (refresh a = refresh b))"
  by (auto simp: isSameOauth_def)

text \<open>An empty identifier on the stored side, the same refresh token on both.\<close>

theorem isSameOauth_edges_witness:
  "\<not> isSameOauth
       \<lparr>refresh = ''r1'', access = ''a'', expires = 0, enterpriseUrl = None, accountId = Some []\<rparr>
       None \<and>
   isSameOauth
     \<lparr>refresh = ''r1'', access = ''a'', expires = 0, enterpriseUrl = None, accountId = Some []\<rparr>
     (Some \<lparr>refresh = ''r1'', access = ''b'', expires = 0, enterpriseUrl = None,
            accountId = Some ''acct1''\<rparr>)"
  using isSameOauth_edges
          [of "\<lparr>refresh = ''r1'', access = ''a'', expires = 0, enterpriseUrl = None,
                accountId = Some []\<rparr>"
              "\<lparr>refresh = ''r1'', access = ''b'', expires = 0, enterpriseUrl = None,
                accountId = Some ''acct1''\<rparr>"]
  by simp

subsection \<open>The token inspector\<close>

lemma optString_eq_None: "(optString x = None) = (\<forall>e. x \<noteq> Some (JStr e))"
  by (cases x rule: optString.cases) auto

text \<open>
  C5. \<open>extractEmailFromAccessToken\<close> never throws: it always returns. It returns no
  value when the token has fewer than two segments, when the decoded payload does not
  parse, and when the parsed payload has no string \<^verbatim>\<open>email\<close> under the profile claim;
  it returns the email when the payload has one. The function is the same in all three
  revisions.
\<close>

theorem extractEmail_total:
  "(\<exists>r. extractEmailFromAccessToken h acc = Inr r) \<and>
   (length (splitOn CHR ''.'' acc) < 2 \<longrightarrow> extractEmailFromAccessToken h acc = Inr None) \<and>
   (JSON_parse h (base64UrlToUtf8 h (nth_or (splitOn CHR ''.'' acc) 1 [])) = None \<longrightarrow>
      extractEmailFromAccessToken h acc = Inr None) \<and>
   (JSON_parse h (base64UrlToUtf8 h (nth_or (splitOn CHR ''.'' acc) 1 [])) = Some payload \<and>
    (\<forall>profile e. getProp payload EMAIL_CLAIM_KEY = Some profile \<longrightarrow>
                   getProp profile ''email'' \<noteq> Some (JStr e)) \<longrightarrow>
      extractEmailFromAccessToken h acc = Inr None) \<and>
   (2 \<le> length (splitOn CHR ''.'' acc) \<and>
    JSON_parse h (base64UrlToUtf8 h (nth_or (splitOn CHR ''.'' acc) 1 [])) = Some payload \<and>
    getProp payload EMAIL_CLAIM_KEY = Some profile \<and> getProp profile ''email'' = Some (JStr e) \<longrightarrow>
      extractEmailFromAccessToken h acc = Inr (Some e))"
  apply (intro conjI impI)
      apply (auto simp: extractEmailFromAccessToken_def emailOfPayload_def Let_def optString_eq_None
                  split: sum.splits option.splits json.splits)
  done

lemma demo_segments:
  "splitOn CHR ''.'' demoToken = [''hdr'', ''eyJodHRwczovL2FwaS5vcGVuYWkuY29tL3Byb2ZpbGUiOnsiZW1haWwiOiJhQGIuYyJ9fQ'', ''sig'']"
  by (simp add: demoToken_def)

lemma demo_decoded: "base64UrlToUtf8 demoHost ''eyJodHRwczovL2FwaS5vcGVuYWkuY29tL3Byb2ZpbGUiOnsiZW1haWwiOiJhQGIuYyJ9fQ'' = demoPayloadText"
  by (simp add: base64UrlToUtf8_def demoHost_def)

lemma demo_parsed:
  "JSON_parse demoHost (base64UrlToUtf8 demoHost (nth_or (splitOn CHR ''.'' demoToken) 1 [])) =
     Some demoPayload"
  by (simp add: demo_segments demo_decoded nth_or_def) (simp add: demoHost_def)

text \<open>A token with the email claim, a string with no dot, and a token whose payload is not JSON.\<close>

theorem extractEmail_total_witness:
  "extractEmailFromAccessToken demoHost demoToken = Inr (Some ''a@b.c'') \<and>
   extractEmailFromAccessToken demoHost ''not-a-jwt'' = Inr None \<and>
   extractEmailFromAccessToken demoHost ''a.b.c'' = Inr None"
proof -
  have q: "getProp demoPayload EMAIL_CLAIM_KEY = Some (JObj [(''email'', JStr ''a@b.c'')])"
    by (simp add: demoPayload_def EMAIL_CLAIM_KEY_def)
  have r: "JSON_parse demoHost (base64UrlToUtf8 demoHost (nth_or (splitOn CHR ''.'' ''a.b.c'') 1 [])) = None"
    by (simp add: nth_or_def base64UrlToUtf8_def demoHost_def demoPayloadText_def dq_def)
  show ?thesis
    using extractEmail_total
            [of demoHost demoToken demoPayload "JObj [(''email'', JStr ''a@b.c'')]" "''a@b.c''"]
          extractEmail_total [of demoHost "''not-a-jwt''"]
          extractEmail_total [of demoHost "''a.b.c''"]
          demo_parsed q r
    by (simp add: demo_segments)
qed

subsection \<open>Profiles of the declared type\<close>

text \<open>
  On an entry that \<open>encodeProfile\<close> wrote, the reads of the handler give the fields of the
  profile, the body of \<^verbatim>\<open>client.auth.set\<close> is \<open>authBody\<close> and the active-profile rule is
  \<open>isSameOauth\<close>.
\<close>

lemma map_of_encodeProfiles: "map_of (encodeProfiles ps) k = map_option encodeProfile (map_of ps k)"
  by (induction ps) (auto simp: encodeProfiles_def)

lemma set_ownKeys: "set (ownKeys kvs) = fst ` set kvs"
  by (induction kvs rule: ownKeys.induct) auto

lemma distinct_ownKeys: "distinct (ownKeys kvs)"
  by (induction kvs rule: ownKeys.induct) auto

lemma fst_encodeProfiles: "fst ` set (encodeProfiles ps) = fst ` set ps"
  by (force simp: encodeProfiles_def)

lemma readKey_vault:
  "readKey h (Some (JObj (encodeProfiles ps))) k =
     Inr (case map_of ps k of
            Some p \<Rightarrow> Val (encodeProfile p)
          | None \<Rightarrow> if k \<in> set objectPrototypeKeys then Inherited else Undefined)"
  by (simp add: map_of_encodeProfiles split: option.splits)

lemma oauth_of_encodeProfile: "memberOf (Val (encodeProfile p)) ''oauth'' = Inr (Some (encodeOAuth (oauth p)))"
  by (simp add: encodeProfile_def)

lemma truthy_encodeProfile: "truthy_json (Some (encodeProfile p))"
  by (simp add: encodeProfile_def)

lemma getProp_encodeOAuth:
  "getProp (encodeOAuth c) ''refresh'' = Some (JStr (refresh c))"
  "getProp (encodeOAuth c) ''access'' = Some (JStr (access c))"
  "getProp (encodeOAuth c) ''expires'' = Some (JNum (expires c))"
  "getProp (encodeOAuth c) ''enterpriseUrl'' = map_option JStr (enterpriseUrl c)"
  "getProp (encodeOAuth c) ''accountId'' = map_option JStr (accountId c)"
  by (auto simp: encodeOAuth_def split: option.splits)

lemma readProp_encodeOAuth: "readProp (Some (encodeOAuth c)) k = Inr (getProp (encodeOAuth c) k)"
  by (simp add: encodeOAuth_def)

lemma authBody_stored_encode: "authBody_stored (Some (encodeOAuth c)) = Inr (authBody c)"
  by (cases "enterpriseUrl c")
     (simp_all add: authBody_stored_def authBody_def readProp_encodeOAuth getProp_encodeOAuth sent_def)

lemma isSameOauth_stored_encode:
  "isSameOauth_stored (Some (encodeOAuth a)) b = Inr (isSameOauth a b)"
proof (cases b)
  case None
  then show ?thesis by (simp add: isSameOauth_stored_def isSameOauth_def)
next
  case (Some b')
  then show ?thesis
    by (cases "accountId a"; cases "accountId b'")
       (auto simp: isSameOauth_stored_def isSameOauth_def readProp_encodeOAuth getProp_encodeOAuth)
qed

subsection \<open>Dispatch and the branches of the current revision\<close>

lemma dispatch_save:
  assumes "toLowerCase (stripSlash (trim command)) = COMMAND"
      and "toLowerCase (nth_or (parseArgs arguments) 0 []) = ''save''"
  shows "command_execute_before h command arguments =
           io_catch (save_action h (parseArgs arguments)) errorBoundary"
  using assms by (simp add: command_execute_before_def normalizeAction_def Let_def)

lemma dispatch_load:
  assumes "toLowerCase (stripSlash (trim command)) = COMMAND"
      and "toLowerCase (nth_or (parseArgs arguments) 0 []) = ''load''"
  shows "command_execute_before h command arguments =
           io_catch (load_action h (parseArgs arguments)) errorBoundary"
  using assms by (simp add: command_execute_before_def normalizeAction_def Let_def)

lemma dispatch_unknown:
  assumes "toLowerCase (stripSlash (trim command)) = COMMAND"
      and "toLowerCase (nth_or (parseArgs arguments) 0 []) \<notin> {[], ''list'', ''save'', ''del'', ''load''}"
  shows "command_execute_before h command arguments = io_catch unknown_action errorBoundary"
  using assms by (simp add: command_execute_before_def normalizeAction_def Let_def)

lemma ensureActiveAuth_frame:
  "ensureActiveAuth s = (r, s') \<Longrightarrow>
   storage_file s' = storage_file s \<and> auth_file s' = auth_file s \<and> parts s' = parts s \<and>
   (\<exists>evs. events s' = events s @ evs \<and> set evs \<subseteq> {Exists AUTH_PATH, ReadJson AUTH_PATH}) \<and>
   (\<forall>e. r = Inl e \<longrightarrow> e = NoActiveLogin)"
  by (auto simp: ensureActiveAuth_def readJsonFile_def io_defs split: disk_file.splits sum.splits)

lemma ensureActiveAuth_ok:
  assumes "auth_file s = Content authFile" "readOpenAiAuthFromAuthFile authFile = Inr cred"
  shows "ensureActiveAuth s = (Inr cred, s\<lparr>events := events s @ [Exists AUTH_PATH, ReadJson AUTH_PATH]\<rparr>)"
  using assms by (simp add: ensureActiveAuth_def readJsonFile_def io_defs)

lemma save_after_auth:
  assumes "nm \<noteq> []"
      and "storage_file s = Content d \<and> getProp d ''version'' = Some (JNum 1) \<and>
           getProp d ''profiles'' = Some (JObj (encodeProfiles ps))"
      and "map_of ps nm = Some p"
  shows "io_bind loadStorage (\<lambda>storage.
            io_bind (io_of (readKey h (getProp storage ''profiles'') nm)) (\<lambda>existing.
              if truthy_val existing then io_throw (ProfileExists nm) else k storage existing)) s =
         (Inl (ProfileExists nm), s\<lparr>events := events s @ [Exists STORAGE_PATH, ReadJson STORAGE_PATH]\<rparr>)"
  using assms
  by (simp add: io_bind_def io_of_def io_throw_def loadStorage_valid [OF assms(2)]
                map_of_encodeProfiles truthy_encodeProfile)

lemma save_action_taken:
  assumes "nth_or argv 1 [] = nm" "nm \<noteq> []"
      and "storage_file s = Content d \<and> getProp d ''version'' = Some (JNum 1) \<and>
           getProp d ''profiles'' = Some (JObj (encodeProfiles ps))"
      and "map_of ps nm = Some p"
      and "save_action h argv s = (r, s')"
  shows "(\<exists>e. r = Inl e) \<and> storage_file s' = storage_file s \<and> auth_file s' = auth_file s \<and>
         parts s' = parts s \<and>
         (\<exists>evs. events s' = events s @ evs \<and>
                set evs \<subseteq> {Exists AUTH_PATH, ReadJson AUTH_PATH, Exists STORAGE_PATH, ReadJson STORAGE_PATH}) \<and>
         (\<forall>authFile cred. auth_file s = Content authFile \<and> readOpenAiAuthFromAuthFile authFile = Inr cred \<and>
               access cred \<noteq> [] \<and> refresh cred \<noteq> [] \<longrightarrow>
               r = Inl (ProfileExists nm) \<and>
               events s' = events s @ [Exists AUTH_PATH, ReadJson AUTH_PATH, Exists STORAGE_PATH, ReadJson STORAGE_PATH])"
proof (cases "ensureActiveAuth s")
  case (Pair r1 s1)
  from ensureActiveAuth_frame [OF Pair] obtain evs where
    f: "storage_file s1 = storage_file s" "auth_file s1 = auth_file s" "parts s1 = parts s"
       "events s1 = events s @ evs" "set evs \<subseteq> {Exists AUTH_PATH, ReadJson AUTH_PATH}"
    by blast
  show ?thesis
  proof (cases r1)
    case (Inl e)
    with Pair assms(1,2,5) f show ?thesis
      by (auto simp: save_action_def Let_def io_bind_def io_throw_def ensureActiveAuth_ok)
  next
    case (Inr cred)
    show ?thesis
    proof (cases "access cred = [] \<or> refresh cred = []")
      case True
      with Pair Inr assms(1,2,5) f show ?thesis
        by (auto simp: save_action_def Let_def io_bind_def io_throw_def ensureActiveAuth_ok)
    next
      case False
      have st: "storage_file s1 = Content d \<and> getProp d ''version'' = Some (JNum 1) \<and>
                getProp d ''profiles'' = Some (JObj (encodeProfiles ps))"
        using f assms(3) by simp
      have run: "save_action h argv s =
            (Inl (ProfileExists nm), s1\<lparr>events := events s1 @ [Exists STORAGE_PATH, ReadJson STORAGE_PATH]\<rparr>)"
        using Pair Inr False assms(1,2) save_after_auth [OF assms(2) st assms(4), of h]
        by (simp add: save_action_def Let_def io_bind_def [of ensureActiveAuth])
      have only: "\<And>authFile c. auth_file s = Content authFile \<Longrightarrow> readOpenAiAuthFromAuthFile authFile = Inr c \<Longrightarrow>
                    evs = [Exists AUTH_PATH, ReadJson AUTH_PATH]"
        using Pair f(4) by (auto simp: ensureActiveAuth_ok)
      from run assms(5) f only show ?thesis by auto
    qed
  qed
qed

subsection \<open>Names\<close>

lemma set_insertBy: "set (insertBy cmp x ys) = insert x (set ys)"
  by (induction ys) auto

lemma distinct_insertBy: "distinct (insertBy cmp x ys) = (x \<notin> set ys \<and> distinct ys)"
  by (induction ys) (auto simp: set_insertBy)

lemma length_insertBy: "length (insertBy cmp x ys) = Suc (length ys)"
  by (induction ys) auto

lemma set_sortedNames: "set (sortedNames h ks) = set ks"
  unfolding sortedNames_def
  by (induction ks) (auto simp: set_insertBy)

lemma length_sortedNames: "length (sortedNames h ks) = length ks"
  unfolding sortedNames_def
  by (induction ks) (auto simp: length_insertBy)

lemma distinct_sortedNames: "distinct ks \<Longrightarrow> distinct (sortedNames h ks)"
  unfolding sortedNames_def
  by (induction ks) (auto simp: distinct_insertBy set_sortedNames [unfolded sortedNames_def])

lemma sorted_insertBy:
  assumes tot: "\<forall>a b. cmp a b \<le> 0 \<or> cmp b a \<le> 0"
      and trans: "\<forall>a b c. cmp a b \<le> 0 \<and> cmp b c \<le> 0 \<longrightarrow> cmp a c \<le> 0"
  shows "sorted_wrt (\<lambda>a b. cmp a b \<le> 0) ys \<Longrightarrow> sorted_wrt (\<lambda>a b. cmp a b \<le> 0) (insertBy cmp x ys)"
proof (induction ys)
  case Nil
  then show ?case by simp
next
  case (Cons y ys)
  show ?case
  proof (cases "cmp x y \<le> 0")
    case True
    have "\<forall>z \<in> set ys. cmp x z \<le> 0"
      using Cons.prems True trans by (metis list.set_intros(2) sorted_wrt.simps(2))
    with True Cons.prems show ?thesis by simp
  next
    case False
    with tot have "cmp y x \<le> 0" by blast
    with False Cons show ?thesis by (simp add: set_insertBy)
  qed
qed

lemma sorted_sortedNames:
  assumes "\<forall>a b. localeCompare h a b \<le> 0 \<or> localeCompare h b a \<le> 0"
      and "\<forall>a b c. localeCompare h a b \<le> 0 \<and> localeCompare h b c \<le> 0 \<longrightarrow> localeCompare h a c \<le> 0"
  shows "sorted_wrt (\<lambda>a b. localeCompare h a b \<le> 0) (sortedNames h ks)"
  unfolding sortedNames_def
proof (induction ks)
  case Nil
  show ?case by simp
next
  case (Cons k ks)
  from sorted_insertBy [OF assms Cons] show ?case by simp
qed

lemma set_namesOf: "set (namesOf h ps) = fst ` set ps"
  by (simp add: namesOf_def set_sortedNames set_ownKeys fst_encodeProfiles)

lemma distinct_namesOf: "distinct (namesOf h ps)"
  by (simp add: namesOf_def distinct_sortedNames distinct_ownKeys)

lemma digit_not_space: "isDigit c \<Longrightarrow> \<not> isSpace c \<and> c \<noteq> CHR ''-'' \<and> c \<noteq> CHR ''+''"
  by (auto simp: isDigit_def isSpace_def)

lemma parseInt10_digits:
  assumes "tok \<noteq> []" "list_all isDigit tok"
  shows "parseInt10 tok = Some (digitsValue tok)"
proof (cases tok)
  case Nil
  with assms show ?thesis by simp
next
  case (Cons c cs)
  with assms have d: "isDigit c" by simp
  from digit_not_space [OF d] have c: "\<not> isSpace c" "c \<noteq> CHR ''-''" "c \<noteq> CHR ''+''" by blast+
  have t: "takeWhile isDigit tok = tok"
    using assms(2) by (simp add: takeWhile_eq_all_conv list_all_iff)
  have "parseInt10 (c # cs) = Some (digitsValue (takeWhile isDigit (c # cs)))"
    using c d by (simp add: parseInt10_def Let_def)
  then show ?thesis
    using t Cons by simp
qed

lemma resolve_in_range:
  assumes "parseInt10 tok = Some n" "0 < n" "n \<le> int (length names)"
  shows "resolveByParseInt names tok = names ! (nat n - 1) \<and> resolveByParseInt names tok \<in> set names"
proof -
  have "nat n - 1 < length names" using assms by linarith
  then show ?thesis using assms by (simp add: resolveByParseInt_def)
qed

lemma resolve_otherwise:
  "\<not> (\<exists>n. parseInt10 tok = Some n \<and> 0 < n \<and> n \<le> int (length names)) \<Longrightarrow>
   resolveByParseInt names tok = tok"
  by (auto simp: resolveByParseInt_def split: option.splits)

lemma map_of_None_iff_names: "(map_of ps k = None) = (k \<notin> set (namesOf h ps))"
  by (simp add: set_namesOf map_of_eq_None_iff)

lemma extractEmail_returns: "\<exists>r. extractEmailFromAccessToken h acc = Inr r"
  by (auto simp: extractEmailFromAccessToken_def Let_def split: sum.splits)

lemma oauth_of_stored_profile: "readProp (Some (encodeProfile p)) ''oauth'' = Inr (Some (encodeOAuth (oauth p)))"
  by (simp add: encodeProfile_def)

lemma email_of_stored_profile:
  "bindE (readProp (Some (encodeOAuth c)) ''access'') (extractEmail_stored h) =
     extractEmailFromAccessToken h (access c)"
  by (simp add: readProp_encodeOAuth getProp_encodeOAuth)

lemma load_action_found:
  assumes "storage_file s = Content d \<and> getProp d ''version'' = Some (JNum 1) \<and>
           getProp d ''profiles'' = Some (JObj (encodeProfiles ps))"
      and "nth_or argv 1 [] = tok" "tok \<noteq> []"
      and "map_of ps (resolveByParseInt (namesOf h ps) tok) = Some p"
  shows "load_action h argv s =
           (Inr (), s\<lparr>events := events s @
               [Exists STORAGE_PATH, ReadJson STORAGE_PATH, AuthSet PROVIDER_ID (authBody (oauth p)),
                ShowToast (activeToast h (resolveByParseInt (namesOf h ps) tok) (oauth p))],
              parts := []\<rparr>)"
proof -
  obtain r where r: "extractEmailFromAccessToken h (access (oauth p)) = Inr r"
    using extractEmail_returns by blast
  show ?thesis
    using assms r
    by (cases r)
       (simp_all add: load_action_def loadStorage_valid [OF assms(1)] io_defs Let_def
                  activeToast_def namesOf_def map_of_encodeProfiles truthy_encodeProfile
                  oauth_of_stored_profile authBody_stored_encode email_of_stored_profile)
qed

lemma load_action_missing:
  assumes "storage_file s = Content d \<and> getProp d ''version'' = Some (JNum 1) \<and>
           getProp d ''profiles'' = Some (JObj (encodeProfiles ps))"
      and "nth_or argv 1 [] = tok" "tok \<noteq> []"
      and "map_of ps (resolveByParseInt (namesOf h ps) tok) = None"
      and "resolveByParseInt (namesOf h ps) tok \<notin> set objectPrototypeKeys"
  shows "load_action h argv s =
           (Inl (ProfileNotFound (resolveByParseInt (namesOf h ps) tok)),
            s\<lparr>events := events s @ [Exists STORAGE_PATH, ReadJson STORAGE_PATH]\<rparr>)"
  using assms
  by (simp add: load_action_def loadStorage_valid [OF assms(1)] io_defs Let_def namesOf_def
                map_of_encodeProfiles)

lemma load_action_inherited:
  assumes "storage_file s = Content d \<and> getProp d ''version'' = Some (JNum 1) \<and>
           getProp d ''profiles'' = Some (JObj (encodeProfiles ps))"
      and "nth_or argv 1 [] = tok" "tok \<noteq> []"
      and "map_of ps (resolveByParseInt (namesOf h ps) tok) = None"
      and "resolveByParseInt (namesOf h ps) tok \<in> set objectPrototypeKeys"
  shows "load_action h argv s =
           (Inl TypeError, s\<lparr>events := events s @ [Exists STORAGE_PATH, ReadJson STORAGE_PATH]\<rparr>)"
  using assms
  by (simp add: load_action_def loadStorage_valid [OF assms(1)] io_defs Let_def namesOf_def
                map_of_encodeProfiles authBody_stored_def)

lemma load_run_found:
  assumes "toLowerCase (stripSlash (trim command)) = COMMAND"
      and "toLowerCase (nth_or (parseArgs arguments) 0 []) = ''load''"
      and "nth_or (parseArgs arguments) 1 [] = tok" "tok \<noteq> []"
      and "storage_file s = Content d \<and> getProp d ''version'' = Some (JNum 1) \<and>
           getProp d ''profiles'' = Some (JObj (encodeProfiles ps))"
      and "map_of ps (resolveByParseInt (namesOf h ps) tok) = Some p"
  shows "command_execute_before h command arguments s =
           (Inr (), s\<lparr>events := events s @
               [Exists STORAGE_PATH, ReadJson STORAGE_PATH, AuthSet PROVIDER_ID (authBody (oauth p)),
                ShowToast (activeToast h (resolveByParseInt (namesOf h ps) tok) (oauth p))],
              parts := []\<rparr>)"
  by (simp add: dispatch_load [OF assms(1,2)] io_catch_def load_action_found [OF assms(5,3,4,6)])

lemma load_run_missing:
  assumes "toLowerCase (stripSlash (trim command)) = COMMAND"
      and "toLowerCase (nth_or (parseArgs arguments) 0 []) = ''load''"
      and "nth_or (parseArgs arguments) 1 [] = tok" "tok \<noteq> []"
      and "storage_file s = Content d \<and> getProp d ''version'' = Some (JNum 1) \<and>
           getProp d ''profiles'' = Some (JObj (encodeProfiles ps))"
      and "map_of ps (resolveByParseInt (namesOf h ps) tok) = None"
      and "resolveByParseInt (namesOf h ps) tok \<notin> set objectPrototypeKeys"
  shows "command_execute_before h command arguments s =
           (Inr (), s\<lparr>events := events s @
               [Exists STORAGE_PATH, ReadJson STORAGE_PATH,
                ShowToast \<lparr>message = ErrorMessage ''Error: ''
                              (ProfileNotFound (resolveByParseInt (namesOf h ps) tok)),
                           variant = ''error'', duration = None\<rparr>],
              parts := []\<rparr>)"
  by (simp add: dispatch_load [OF assms(1,2)] io_catch_def load_action_missing [OF assms(5,3,4,6,7)]
                errorBoundary_def io_bind_def emit_def showToast_def set_parts_def)

subsection \<open>Every branch exits cleanly\<close>

lemma appends_return: "appends (io_return x)"
  by (simp add: appends_def io_return_def)

lemma appends_throw: "appends (io_throw e)"
  by (simp add: appends_def io_throw_def)

lemma appends_of: "appends (io_of r)"
  by (simp add: appends_def io_of_def)

lemma appends_emit: "appends (emit ev)"
  by (simp add: appends_def emit_def)

lemma appends_set_parts: "appends (set_parts ps)"
  by (simp add: appends_def set_parts_def)

lemma appends_saveStorage: "appends (saveStorage st)"
  by (simp add: appends_def saveStorage_def)

lemma appends_bind:
  assumes "appends m" "\<And>x. appends (f x)"
  shows "appends (io_bind m f)"
  unfolding appends_def
proof (intro allI impI)
  fix s r s'
  assume run: "io_bind m f s = (r, s')"
  obtain r1 s1 where m: "m s = (r1, s1)" by (cases "m s")
  from assms(1) m obtain evs1 where e1: "events s1 = events s @ evs1"
    unfolding appends_def by blast
  show "\<exists>evs. events s' = events s @ evs"
  proof (cases r1)
    case (Inl e)
    with run m e1 show ?thesis by (simp add: io_bind_def)
  next
    case (Inr x)
    with run m have "f x s1 = (r, s')" by (simp add: io_bind_def)
    with assms(2) obtain evs2 where "events s' = events s1 @ evs2"
      unfolding appends_def by blast
    with e1 show ?thesis by simp
  qed
qed

lemma appends_catch:
  assumes "appends m" "\<And>e. appends (f e)"
  shows "appends (io_catch m f)"
  unfolding appends_def
proof (intro allI impI)
  fix s r s'
  assume run: "io_catch m f s = (r, s')"
  obtain r1 s1 where m: "m s = (r1, s1)" by (cases "m s")
  from assms(1) m obtain evs1 where e1: "events s1 = events s @ evs1"
    unfolding appends_def by blast
  show "\<exists>evs. events s' = events s @ evs"
  proof (cases r1)
    case (Inr x)
    with run m e1 show ?thesis by (simp add: io_catch_def)
  next
    case (Inl e)
    with run m have "f e s1 = (r, s')" by (simp add: io_catch_def)
    with assms(2) obtain evs2 where "events s' = events s1 @ evs2"
      unfolding appends_def by blast
    with e1 show ?thesis by simp
  qed
qed

lemma appends_readJsonFile: "appends (readJsonFile p sel)"
  by (auto simp: appends_def readJsonFile_def io_defs split: disk_file.splits)

lemma appends_loadStorage: "appends loadStorage"
  by (auto simp: appends_def loadStorage_def io_defs split: disk_file.splits json.splits if_splits)

lemma appends_ensureActiveAuth: "appends ensureActiveAuth"
  unfolding ensureActiveAuth_def
  by (intro appends_catch appends_bind appends_readJsonFile appends_of appends_throw)

lemma appends_loadStorageAndAuth: "appends loadStorageAndAuth"
  unfolding loadStorageAndAuth_def
  by (intro appends_bind appends_catch appends_loadStorage appends_readJsonFile appends_return)
     (auto intro!: appends_bind appends_of appends_return appends_throw split: json.splits)

lemma toast_last_showToast: "toast_last (showToast t)"
  by (simp add: toast_last_def showToast_def emit_def)

lemma toast_last_bind:
  assumes "appends m" "\<And>x. toast_last (f x)"
  shows "toast_last (io_bind m f)"
  unfolding toast_last_def
proof (intro allI impI)
  fix s r s'
  assume run: "io_bind m f s = (r, s')"
  obtain r1 s1 where m: "m s = (r1, s1)" by (cases "m s")
  from assms(1) m obtain evs1 where e1: "events s1 = events s @ evs1"
    unfolding appends_def by blast
  show "(\<exists>evs. events s' = events s @ evs) \<and>
        ((\<exists>x. r = Inr x) \<longrightarrow> (\<exists>evs t. events s' = events s @ evs @ [ShowToast t]))"
  proof (cases r1)
    case (Inl e)
    with run m e1 show ?thesis by (auto simp: io_bind_def)
  next
    case (Inr x)
    with run m have "f x s1 = (r, s')" by (simp add: io_bind_def)
    with assms(2) have "(\<exists>evs. events s' = events s1 @ evs) \<and>
        ((\<exists>x. r = Inr x) \<longrightarrow> (\<exists>evs t. events s' = events s1 @ evs @ [ShowToast t]))"
      unfolding toast_last_def by blast
    with e1 show ?thesis by (metis append.assoc)
  qed
qed

lemma clean_of_toast_last:
  assumes "toast_last m"
  shows "clean_exit (io_bind m (\<lambda>_. set_parts []))"
  unfolding clean_exit_def
proof (intro allI impI)
  fix s r s'
  assume run: "io_bind m (\<lambda>_. set_parts []) s = (r, s')"
  obtain r1 s1 where m: "m s = (r1, s1)" by (cases "m s")
  from assms m have t: "(\<exists>evs. events s1 = events s @ evs) \<and>
        ((\<exists>x. r1 = Inr x) \<longrightarrow> (\<exists>evs t. events s1 = events s @ evs @ [ShowToast t]))"
    unfolding toast_last_def by blast
  show "(\<exists>evs. events s' = events s @ evs) \<and>
        (r = Inr () \<longrightarrow> parts s' = [] \<and> (\<exists>evs t. events s' = events s @ evs @ [ShowToast t]))"
  proof (cases r1)
    case (Inl e)
    with run m t show ?thesis by (auto simp: io_bind_def)
  next
    case (Inr x)
    with run m t show ?thesis by (auto simp: io_bind_def set_parts_def)
  qed
qed

lemma clean_throw: "clean_exit (io_throw e)"
  by (simp add: clean_exit_def io_throw_def)

lemma clean_bind:
  assumes "appends m" "\<And>x. clean_exit (f x)"
  shows "clean_exit (io_bind m f)"
  unfolding clean_exit_def
proof (intro allI impI)
  fix s r s'
  assume run: "io_bind m f s = (r, s')"
  obtain r1 s1 where m: "m s = (r1, s1)" by (cases "m s")
  from assms(1) m obtain evs1 where e1: "events s1 = events s @ evs1"
    unfolding appends_def by blast
  show "(\<exists>evs. events s' = events s @ evs) \<and>
        (r = Inr () \<longrightarrow> parts s' = [] \<and> (\<exists>evs t. events s' = events s @ evs @ [ShowToast t]))"
  proof (cases r1)
    case (Inl e)
    with run m e1 show ?thesis by (auto simp: io_bind_def)
  next
    case (Inr x)
    with run m have "f x s1 = (r, s')" by (simp add: io_bind_def)
    with assms(2) have "(\<exists>evs. events s' = events s1 @ evs) \<and>
        (r = Inr () \<longrightarrow> parts s' = [] \<and> (\<exists>evs t. events s' = events s1 @ evs @ [ShowToast t]))"
      unfolding clean_exit_def by blast
    with e1 show ?thesis by (metis append.assoc)
  qed
qed

lemma clean_toast: "clean_exit (io_bind (showToast t) (\<lambda>_. set_parts []))"
  by (rule clean_of_toast_last [OF toast_last_showToast])

lemma clean_unknown: "clean_exit unknown_action"
  unfolding unknown_action_def by (rule clean_toast)

lemma clean_load: "clean_exit (load_action h argv)"
  unfolding load_action_def Let_def
  by (auto intro!: clean_bind clean_throw clean_toast appends_loadStorage appends_of appends_emit)

lemma clean_del: "clean_exit (del_action h argv)"
  unfolding del_action_def Let_def
  by (auto intro!: clean_bind clean_throw clean_toast appends_loadStorage appends_of appends_saveStorage)

lemma clean_save: "clean_exit (save_action h argv)"
  unfolding save_action_def Let_def
  by (auto intro!: clean_bind clean_throw clean_toast appends_loadStorage appends_of appends_saveStorage
                   appends_ensureActiveAuth)

lemma clean_list: "clean_exit (list_action h)"
  unfolding list_action_def Let_def
  by (auto intro!: clean_bind clean_of_toast_last toast_last_bind toast_last_showToast
                   appends_loadStorageAndAuth appends_of
           simp: split_def)

lemma clean_list_r2: "clean_exit (list_action_r2 h)"
  unfolding list_action_r2_def Let_def
  by (auto intro!: clean_bind clean_of_toast_last toast_last_bind toast_last_showToast
                   appends_loadStorageAndAuth appends_of
           simp: split_def)

lemma clean_save_r2: "clean_exit (save_action_r2 h argv)"
  unfolding save_action_r2_def Let_def
  by (auto intro!: clean_bind clean_throw clean_toast appends_loadStorage appends_of appends_saveStorage
                   appends_ensureActiveAuth)

lemma clean_remove_r2: "clean_exit (remove_action_r2 h argv)"
  unfolding remove_action_r2_def Let_def
  by (auto intro!: clean_bind clean_throw clean_toast appends_loadStorage appends_of appends_saveStorage)

lemma clean_activate_r2: "clean_exit (activate_r2 h sel)"
  unfolding activate_r2_def Let_def
  by (auto intro!: clean_bind clean_throw clean_toast appends_loadStorage appends_of appends_emit)

lemma catch_clean:
  assumes "clean_exit m" "io_catch m errorBoundary s = (r, s')"
  shows "r = Inr () \<and> parts s' = [] \<and> (\<exists>evs t. events s' = events s @ evs @ [ShowToast t])"
proof (cases "m s")
  case (Pair r1 s1)
  from assms(1) Pair have ext: "\<exists>evs. events s1 = events s @ evs"
    and ok: "r1 = Inr () \<longrightarrow> parts s1 = [] \<and> (\<exists>evs t. events s1 = events s @ evs @ [ShowToast t])"
    unfolding clean_exit_def by blast+
  show ?thesis
  proof (cases r1)
    case (Inl e)
    with Pair assms(2) ext show ?thesis
      by (auto simp: io_catch_def errorBoundary_def io_bind_def emit_def set_parts_def showToast_def)
  next
    case (Inr u)
    with Pair assms(2) ok show ?thesis
      by (auto simp: io_catch_def)
  qed
qed

lemma body_clean:
  "clean_exit
     (let argv = parseArgs arguments;
          rawSub = toLowerCase (nth_or argv 0 []);
          action = normalizeAction rawSub
      in if action = ''list'' then list_action h
         else if action = ''save'' then save_action h argv
         else if action = ''del'' then del_action h argv
         else if action = ''load'' then load_action h argv
         else if action = ''unknown'' then unknown_action
         else io_return ())"
  by (simp add: Let_def normalizeAction_def clean_list clean_save clean_del clean_load clean_unknown)

lemma body_clean_r2:
  "clean_exit
     (let argv = parseArgs arguments;
          sub = nth_or argv 0 [];
          normalizedSub = normalizeSub sub
      in if normalizedSub = [] \<or> normalizedSub = ''_list'' then list_action_r2 h
         else if normalizedSub = ''save'' then save_action_r2 h argv
         else if normalizedSub = ''d'' \<or> normalizedSub = ''rm'' \<or> normalizedSub = ''remove''
         then remove_action_r2 h argv
         else activate_r2 h normalizedSub)"
  by (simp add: Let_def clean_list_r2 clean_save_r2 clean_remove_r2 clean_activate_r2)

subsection \<open>Dispatch as one equation\<close>

lemma dispatch_body:
  assumes "toLowerCase (stripSlash (trim command)) = COMMAND"
  shows "command_execute_before h command arguments s =
           io_catch
             (let argv = parseArgs arguments;
                  rawSub = toLowerCase (nth_or argv 0 []);
                  action = normalizeAction rawSub
              in if action = ''list'' then list_action h
                 else if action = ''save'' then save_action h argv
                 else if action = ''del'' then del_action h argv
                 else if action = ''load'' then load_action h argv
                 else if action = ''unknown'' then unknown_action
                 else io_return ())
             errorBoundary s"
  using assms by (simp add: command_execute_before_def Let_def)

lemma dispatch_body_r2:
  assumes "toLowerCase (stripSlash (trim command)) = COMMAND"
  shows "command_execute_before_r2 h command arguments s =
           io_catch
             (let argv = parseArgs arguments;
                  sub = nth_or argv 0 [];
                  normalizedSub = normalizeSub sub
              in if normalizedSub = [] \<or> normalizedSub = ''_list'' then list_action_r2 h
                 else if normalizedSub = ''save'' then save_action_r2 h argv
                 else if normalizedSub = ''d'' \<or> normalizedSub = ''rm'' \<or> normalizedSub = ''remove''
                 then remove_action_r2 h argv
                 else activate_r2 h normalizedSub)
             errorBoundary
             (s\<lparr>events := events s @
                 [ShowToast \<lparr>message = Plain (''OpenAIMultiAccountPlugin: command.execute.before called for command: '' @ command),
                             variant = ''info'', duration = Some 1000\<rparr>]\<rparr>)"
  using assms by (simp add: command_execute_before_r2_def Let_def io_bind_def emit_def showToast_def)

lemma live_read: "readOpenAiAuthFromAuthFile liveAuthFile = Inr liveCred"
  by code_simp

lemma authBody_keys:
  "fst ` set (authBody c) =
     {''type'', ''refresh'', ''access'', ''expires''} \<union>
     (if truthy (enterpriseUrl c) then {''enterpriseUrl''} else {})"
  by (auto simp: authBody_def)

text \<open>
  White space between the tokens of the arguments includes the no-break space:
  \<^verbatim>\<open>save\<close>, U+00A0, \<^verbatim>\<open>work\<close> is the verb \<^verbatim>\<open>save\<close> with the name \<^verbatim>\<open>work\<close>.
\<close>

lemma no_break_space_separates_tokens:
  "parseArgs (''save'' @ [CHR 0xA0] @ ''work'') = [''save'', ''work''] \<and>
   trim (''work'' @ [CHR 0xA0]) = ''work''"
  by code_simp

section \<open>The claims on the command handler\<close>

subsection \<open>C1: saving under a taken name\<close>

text \<open>
  C1 (as amended). In the current revision, \<^verbatim>\<open>save\<close> under a name the vault already holds
  ends in an error toast and leaves the storage file as it was, so the vault read again
  still has the profile under that name with its credential and its \<^verbatim>\<open>savedAt\<close>; when the
  live credential is readable with non-empty tokens the error is the name-taken one
  (\<open>ProfileExists\<close>). Whatever the live credential, nothing is written.
\<close>

theorem save_rejects_taken_name:
  assumes "toLowerCase (stripSlash (trim command)) = COMMAND"
      and "toLowerCase (nth_or (parseArgs arguments) 0 []) = ''save''"
      and "nth_or (parseArgs arguments) 1 [] = nm" "nm \<noteq> []"
      and "storage_file s = Content d \<and> getProp d ''version'' = Some (JNum 1) \<and>
           getProp d ''profiles'' = Some (JObj (encodeProfiles ps))"
      and "map_of ps nm = Some p"
      and "command_execute_before h command arguments s = (r, s')"
  shows "storage_file s' = storage_file s \<and>
         fst (loadStorage s') = Inr d \<and>
         parts s' = [] \<and>
         (\<exists>evs e. events s' = events s @ evs @
                      [ShowToast \<lparr>message = ErrorMessage ''Error: '' e, variant = ''error'', duration = None\<rparr>] \<and>
                  set evs \<subseteq> {Exists AUTH_PATH, ReadJson AUTH_PATH, Exists STORAGE_PATH, ReadJson STORAGE_PATH}) \<and>
         (\<forall>authFile cred. auth_file s = Content authFile \<and> readOpenAiAuthFromAuthFile authFile = Inr cred \<and>
               access cred \<noteq> [] \<and> refresh cred \<noteq> [] \<longrightarrow>
               events s' = events s @
                 [Exists AUTH_PATH, ReadJson AUTH_PATH, Exists STORAGE_PATH, ReadJson STORAGE_PATH,
                  ShowToast \<lparr>message = ErrorMessage ''Error: '' (ProfileExists nm), variant = ''error'',
                             duration = None\<rparr>])"
proof (cases "save_action h (parseArgs arguments) s")
  case (Pair r1 s1)
  from save_action_taken [OF assms(3,4,5,6) Pair] obtain e evs where
    a: "r1 = Inl e" "storage_file s1 = storage_file s" "auth_file s1 = auth_file s" "parts s1 = parts s"
       "events s1 = events s @ evs"
       "set evs \<subseteq> {Exists AUTH_PATH, ReadJson AUTH_PATH, Exists STORAGE_PATH, ReadJson STORAGE_PATH}"
    and b: "\<forall>authFile cred. auth_file s = Content authFile \<and> readOpenAiAuthFromAuthFile authFile = Inr cred \<and>
               access cred \<noteq> [] \<and> refresh cred \<noteq> [] \<longrightarrow>
               r1 = Inl (ProfileExists nm) \<and>
               events s1 = events s @ [Exists AUTH_PATH, ReadJson AUTH_PATH, Exists STORAGE_PATH, ReadJson STORAGE_PATH]"
    by blast
  have run: "s' = s1\<lparr>events := events s1 @ [ShowToast \<lparr>message = ErrorMessage ''Error: '' e, variant = ''error'', duration = None\<rparr>], parts := []\<rparr>"
    using assms(7) Pair a(1) by (simp add: dispatch_save [OF assms(1,2)] errorBoundary_def io_defs)
  have st: "storage_file s' = storage_file s" using run a by simp
  have "storage_file s' = Content d \<and> getProp d ''version'' = Some (JNum 1) \<and>
        getProp d ''profiles'' = Some (JObj (encodeProfiles ps))"
    using st assms(5) by simp
  from loadStorage_valid [OF this] have ld: "fst (loadStorage s') = Inr d"
    by simp
  have ev: "events s' = events s @ evs @ [ShowToast \<lparr>message = ErrorMessage ''Error: '' e, variant = ''error'', duration = None\<rparr>]"
    using run a by simp
  show ?thesis
    using st ld ev a(1,6) b run by auto
qed

text \<open>\<^verbatim>\<open>/oai save work\<close> on a vault that holds \<^verbatim>\<open>work\<close>.\<close>

theorem save_rejects_taken_name_witness:
  "storage_file (snd (command_execute_before demoHost ''/oai'' ''save work'' (stateWith [''work''])))
     = storage_file (stateWith [''work'']) \<and>
   events (snd (command_execute_before demoHost ''/oai'' ''save work'' (stateWith [''work''])))
     = [Exists AUTH_PATH, ReadJson AUTH_PATH, Exists STORAGE_PATH, ReadJson STORAGE_PATH,
        ShowToast \<lparr>message = ErrorMessage ''Error: '' (ProfileExists ''work''), variant = ''error'',
                   duration = None\<rparr>] \<and>
   parts (snd (command_execute_before demoHost ''/oai'' ''save work'' (stateWith [''work'']))) = []"
proof -
  have a: "toLowerCase (stripSlash (trim ''/oai'')) = COMMAND" by code_simp
  have b: "toLowerCase (nth_or (parseArgs ''save work'') 0 []) = ''save''" by code_simp
  have c: "nth_or (parseArgs ''save work'') 1 [] = ''work''" by code_simp
  have d: "''work'' \<noteq> []" by simp
  have e: "storage_file (stateWith [''work'']) = Content (vaultDoc [(''work'', profileOf ''work'')]) \<and>
           getProp (vaultDoc [(''work'', profileOf ''work'')]) ''version'' = Some (JNum 1) \<and>
           getProp (vaultDoc [(''work'', profileOf ''work'')]) ''profiles'' =
             Some (JObj (encodeProfiles [(''work'', profileOf ''work'')]))"
    by (simp add: stateWith_def vaultDoc_holds)
  have f: "map_of [(''work'', profileOf ''work'')] ''work'' = Some (profileOf ''work'')" by simp
  have g: "auth_file (stateWith [''work'']) = Content liveAuthFile \<and>
           readOpenAiAuthFromAuthFile liveAuthFile = Inr liveCred \<and>
           access liveCred \<noteq> [] \<and> refresh liveCred \<noteq> []"
    by (simp add: stateWith_def live_read liveCred_def)
  have ev: "events (stateWith [''work'']) = []" by (simp add: stateWith_def)
  note r = save_rejects_taken_name [OF a b c d e f surjective_pairing, of demoHost]
  from r have "storage_file (snd (command_execute_before demoHost ''/oai'' ''save work'' (stateWith [''work''])))
     = storage_file (stateWith [''work''])"
    and "parts (snd (command_execute_before demoHost ''/oai'' ''save work'' (stateWith [''work'']))) = []"
    by blast+
  moreover from r g ev have "events (snd (command_execute_before demoHost ''/oai'' ''save work'' (stateWith [''work''])))
     = [Exists AUTH_PATH, ReadJson AUTH_PATH, Exists STORAGE_PATH, ReadJson STORAGE_PATH,
        ShowToast \<lparr>message = ErrorMessage ''Error: '' (ProfileExists ''work''), variant = ''error'',
                   duration = None\<rparr>]"
    by (metis append_Nil)
  ultimately show ?thesis by blast
qed

text \<open>
  The claim as stated fails on \<^verbatim>\<open>src/plugins/openai-multi.ts\<close> (and on
  \<^verbatim>\<open>src/unnamed/part_002\<close>, whose save branch has no look-up either): the second save
  replaces the stored credential and its \<^verbatim>\<open>savedAt\<close>, writes the file and reports success.
\<close>

theorem save_overwrites_in_oldest_revision:
  "command_execute_before_r1 demoHost ''oai'' ''save work'' (stateWith [''work'']) =
     (Inr (),
      \<lparr>storage_file =
         Content (vaultDoc [(''work'', \<lparr>name = ''work'', oauth = liveCred,
                                        savedAt = ''2026-01-01T00:00:00.000Z''\<rparr>)]),
       auth_file = Content liveAuthFile,
       events =
         [Exists AUTH_PATH, ReadJson AUTH_PATH, Exists STORAGE_PATH, ReadJson STORAGE_PATH,
          WriteJson STORAGE_PATH
            (vaultDoc [(''work'', \<lparr>name = ''work'', oauth = liveCred,
                                    savedAt = ''2026-01-01T00:00:00.000Z''\<rparr>)]),
          ShowToast \<lparr>message = Plain ''OpenAI profile saved: work'', variant = ''success'',
                     duration = None\<rparr>],
       parts =
         [TextPart (Plain (''Saved profile '' @ quote @ ''work'' @ quote
                           @ '' to /home/u/.config/opencode/openai-accounts.json''))]\<rparr>) \<and>
   storage_file (stateWith [''work'']) =
     Content (vaultDoc [(''work'', \<lparr>name = ''work'', oauth = storedCred,
                                    savedAt = ''2025-12-31T00:00:00.000Z''\<rparr>)]) \<and>
   storedCred \<noteq> liveCred"
  by code_simp

text \<open>The same run on \<^verbatim>\<open>src/unnamed/part_002\<close>: the file is written with the live credential.\<close>

lemma save_overwrites_in_part_002:
  "storage_file (snd (command_execute_before_r2 demoHost ''oai'' ''save work'' (stateWith [''work'']))) =
     Content (vaultDoc [(''work'', \<lparr>name = ''work'', oauth = liveCred,
                                    savedAt = ''2026-01-01T00:00:00.000Z''\<rparr>)])"
  by code_simp

subsection \<open>C2: the selector\<close>

text \<open>
  C2 (as amended). In the current revision the load action works over the vault's names
  sorted by the host's comparator (each name once; in order whenever the comparator is a
  total preorder). A token made of decimal digits whose value is from 1 to the count of
  names activates the profile at that place, and this never fails. A token made of
  digits whose value is outside that range, and a token on which \<^verbatim>\<open>parseInt\<close> gives
  \<^verbatim>\<open>NaN\<close>, is the name itself: when the vault has a profile of that name it is activated,
  and when it has none the action fails with the not-found error, provided the token is
  not the name of a member that every object inherits.
\<close>

theorem load_resolution:
  assumes "toLowerCase (stripSlash (trim command)) = COMMAND"
      and "toLowerCase (nth_or (parseArgs arguments) 0 []) = ''load''"
      and "nth_or (parseArgs arguments) 1 [] = tok" "tok \<noteq> []"
      and "storage_file s = Content d \<and> getProp d ''version'' = Some (JNum 1) \<and>
           getProp d ''profiles'' = Some (JObj (encodeProfiles ps))"
  shows "set (namesOf h ps) = fst ` set ps \<and> distinct (namesOf h ps) \<and>
         ((\<forall>a b. localeCompare h a b \<le> 0 \<or> localeCompare h b a \<le> 0) \<and>
          (\<forall>a b c. localeCompare h a b \<le> 0 \<and> localeCompare h b c \<le> 0 \<longrightarrow> localeCompare h a c \<le> 0) \<longrightarrow>
            sorted_wrt (\<lambda>a b. localeCompare h a b \<le> 0) (namesOf h ps)) \<and>
         (list_all isDigit tok \<and> 0 < digitsValue tok \<and> digitsValue tok \<le> int (length (namesOf h ps)) \<longrightarrow>
            (\<exists>p. map_of ps (namesOf h ps ! (nat (digitsValue tok) - 1)) = Some p \<and>
               command_execute_before h command arguments s =
                 (Inr (), s\<lparr>events := events s @
                    [Exists STORAGE_PATH, ReadJson STORAGE_PATH,
                     AuthSet PROVIDER_ID (authBody (oauth p)),
                     ShowToast (activeToast h (namesOf h ps ! (nat (digitsValue tok) - 1)) (oauth p))],
                    parts := []\<rparr>))) \<and>
         ((list_all isDigit tok \<and>
           \<not> (0 < digitsValue tok \<and> digitsValue tok \<le> int (length (namesOf h ps)))) \<or>
          parseInt10 tok = None \<longrightarrow>
            (\<forall>p. map_of ps tok = Some p \<longrightarrow>
               command_execute_before h command arguments s =
                 (Inr (), s\<lparr>events := events s @
                    [Exists STORAGE_PATH, ReadJson STORAGE_PATH,
                     AuthSet PROVIDER_ID (authBody (oauth p)),
                     ShowToast (activeToast h tok (oauth p))],
                    parts := []\<rparr>)) \<and>
            (map_of ps tok = None \<and> tok \<notin> set objectPrototypeKeys \<longrightarrow>
               command_execute_before h command arguments s =
                 (Inr (), s\<lparr>events := events s @
                    [Exists STORAGE_PATH, ReadJson STORAGE_PATH,
                     ShowToast \<lparr>message = ErrorMessage ''Error: '' (ProfileNotFound tok),
                                variant = ''error'', duration = None\<rparr>],
                    parts := []\<rparr>)))"
proof -
  let ?names = "namesOf h ps"
  have names: "set ?names = fst ` set ps" "distinct ?names"
    by (rule set_namesOf, rule distinct_namesOf)
  have sorted: "(\<forall>a b. localeCompare h a b \<le> 0 \<or> localeCompare h b a \<le> 0) \<and>
          (\<forall>a b c. localeCompare h a b \<le> 0 \<and> localeCompare h b c \<le> 0 \<longrightarrow> localeCompare h a c \<le> 0) \<longrightarrow>
            sorted_wrt (\<lambda>a b. localeCompare h a b \<le> 0) ?names"
    unfolding namesOf_def using sorted_sortedNames [of h "ownKeys (encodeProfiles ps)"] by blast
  have inrange: "\<exists>p. map_of ps (?names ! (nat (digitsValue tok) - 1)) = Some p \<and>
               command_execute_before h command arguments s =
                 (Inr (), s\<lparr>events := events s @
                    [Exists STORAGE_PATH, ReadJson STORAGE_PATH,
                     AuthSet PROVIDER_ID (authBody (oauth p)),
                     ShowToast (activeToast h (?names ! (nat (digitsValue tok) - 1)) (oauth p))],
                    parts := []\<rparr>)"
    if n: "list_all isDigit tok \<and> 0 < digitsValue tok \<and> digitsValue tok \<le> int (length ?names)"
  proof -
    have pi: "parseInt10 tok = Some (digitsValue tok)"
      using n assms(4) by (simp add: parseInt10_digits)
    have rm: "resolveByParseInt ?names tok = ?names ! (nat (digitsValue tok) - 1) \<and>
              resolveByParseInt ?names tok \<in> set ?names"
      using n pi by (intro resolve_in_range) simp_all
    then have r: "resolveByParseInt ?names tok = ?names ! (nat (digitsValue tok) - 1)"
      and m: "resolveByParseInt ?names tok \<in> set ?names"
      by blast+
    from m have "map_of ps (resolveByParseInt ?names tok) \<noteq> None"
      by (simp add: map_of_None_iff_names [of ps _ h])
    then obtain p where p: "map_of ps (resolveByParseInt ?names tok) = Some p"
      by blast
    from load_run_found [OF assms p] r p show ?thesis
      by (intro exI [of _ p]) simp
  qed
  have literal: "resolveByParseInt ?names tok = tok"
    if c: "(list_all isDigit tok \<and> \<not> (0 < digitsValue tok \<and> digitsValue tok \<le> int (length ?names))) \<or>
           parseInt10 tok = None"
  proof -
    have "\<not> (\<exists>n. parseInt10 tok = Some n \<and> 0 < n \<and> n \<le> int (length ?names))"
      using c assms(4) by (auto simp: parseInt10_digits)
    then show ?thesis by (rule resolve_otherwise)
  qed
  have found: "command_execute_before h command arguments s =
                 (Inr (), s\<lparr>events := events s @
                    [Exists STORAGE_PATH, ReadJson STORAGE_PATH,
                     AuthSet PROVIDER_ID (authBody (oauth p)),
                     ShowToast (activeToast h tok (oauth p))],
                    parts := []\<rparr>)"
    if "(list_all isDigit tok \<and> \<not> (0 < digitsValue tok \<and> digitsValue tok \<le> int (length ?names))) \<or>
           parseInt10 tok = None"
       "map_of ps tok = Some p" for p
    using load_run_found [OF assms, of h p] literal [OF that(1)] that(2) by simp
  have missing: "command_execute_before h command arguments s =
                 (Inr (), s\<lparr>events := events s @
                    [Exists STORAGE_PATH, ReadJson STORAGE_PATH,
                     ShowToast \<lparr>message = ErrorMessage ''Error: '' (ProfileNotFound tok),
                                variant = ''error'', duration = None\<rparr>],
                    parts := []\<rparr>)"
    if "(list_all isDigit tok \<and> \<not> (0 < digitsValue tok \<and> digitsValue tok \<le> int (length ?names))) \<or>
           parseInt10 tok = None"
       "map_of ps tok = None" "tok \<notin> set objectPrototypeKeys"
    using load_run_missing [OF assms, of h] literal [OF that(1)] that(2,3) by simp
  show ?thesis
    using names sorted inrange found missing by blast
qed

text \<open>
  The example of the specification: over the names a, b, c the token 2 activates b and
  the token 4 fails; and the token c is a name.
\<close>

theorem load_resolution_witness:
  "command_execute_before demoHost ''oai'' ''load 2'' (stateWith [''c'', ''a'', ''b'']) =
     (Inr (),
      (stateWith [''c'', ''a'', ''b''])
        \<lparr>events :=
           [Exists STORAGE_PATH, ReadJson STORAGE_PATH, AuthSet ''openai'' (authBody storedCred),
            ShowToast \<lparr>message = Plain ''Active: b'', variant = ''success'', duration = None\<rparr>],
         parts := []\<rparr>) \<and>
   command_execute_before demoHost ''oai'' ''load 4'' (stateWith [''c'', ''a'', ''b'']) =
     (Inr (),
      (stateWith [''c'', ''a'', ''b''])
        \<lparr>events :=
           [Exists STORAGE_PATH, ReadJson STORAGE_PATH,
            ShowToast \<lparr>message = ErrorMessage ''Error: '' (ProfileNotFound ''4''), variant = ''error'',
                       duration = None\<rparr>],
         parts := []\<rparr>) \<and>
   command_execute_before demoHost ''oai'' ''load c'' (stateWith [''c'', ''a'', ''b'']) =
     (Inr (),
      (stateWith [''c'', ''a'', ''b''])
        \<lparr>events :=
           [Exists STORAGE_PATH, ReadJson STORAGE_PATH, AuthSet ''openai'' (authBody storedCred),
            ShowToast \<lparr>message = Plain ''Active: c'', variant = ''success'', duration = None\<rparr>],
         parts := []\<rparr>)"
proof -
  let ?ps = "[(''c'', profileOf ''c''), (''a'', profileOf ''a''), (''b'', profileOf ''b'')]"
  let ?s = "stateWith [''c'', ''a'', ''b'']"
  have a: "toLowerCase (stripSlash (trim ''oai'')) = COMMAND" by code_simp
  have b2: "toLowerCase (nth_or (parseArgs ''load 2'') 0 []) = ''load''" by code_simp
  have c2: "nth_or (parseArgs ''load 2'') 1 [] = ''2''" by code_simp
  have b4: "toLowerCase (nth_or (parseArgs ''load 4'') 0 []) = ''load''" by code_simp
  have c4: "nth_or (parseArgs ''load 4'') 1 [] = ''4''" by code_simp
  have bc: "toLowerCase (nth_or (parseArgs ''load c'') 0 []) = ''load''" by code_simp
  have cc: "nth_or (parseArgs ''load c'') 1 [] = ''c''" by code_simp
  have e: "storage_file ?s = Content (vaultDoc ?ps) \<and>
           getProp (vaultDoc ?ps) ''version'' = Some (JNum 1) \<and>
           getProp (vaultDoc ?ps) ''profiles'' = Some (JObj (encodeProfiles ?ps))"
    by (simp add: stateWith_def vaultDoc_holds)
  have ev: "events ?s = []" by (simp add: stateWith_def)
  have n2: "list_all isDigit ''2'' \<and> 0 < digitsValue ''2'' \<and>
            digitsValue ''2'' \<le> int (length (namesOf demoHost ?ps))"
    by code_simp
  have v2: "nat (digitsValue ''2'') - 1 = Suc 0" by code_simp
  have names': "namesOf demoHost ?ps ! Suc 0 = ''b''" by code_simp
  have tb: "activeToast demoHost ''b'' storedCred =
             \<lparr>message = Plain ''Active: b'', variant = ''success'', duration = None\<rparr>" by code_simp
  have tc: "activeToast demoHost ''c'' storedCred =
             \<lparr>message = Plain ''Active: c'', variant = ''success'', duration = None\<rparr>" by code_simp
  have ob: "oauth (profileOf ''b'') = storedCred" by (simp add: profileOf_def)
  have oc: "oauth (profileOf ''c'') = storedCred" by (simp add: profileOf_def)
  have n4: "(list_all isDigit ''4'' \<and>
             \<not> (0 < digitsValue ''4'' \<and> digitsValue ''4'' \<le> int (length (namesOf demoHost ?ps)))) \<or>
            parseInt10 ''4'' = None"
    by code_simp
  have nc: "(list_all isDigit ''c'' \<and>
             \<not> (0 < digitsValue ''c'' \<and> digitsValue ''c'' \<le> int (length (namesOf demoHost ?ps)))) \<or>
            parseInt10 ''c'' = None"
    by code_simp
  have m4: "map_of ?ps ''4'' = None \<and> ''4'' \<notin> set objectPrototypeKeys"
    by (simp add: objectPrototypeKeys_def)
  have mc: "map_of ?ps ''c'' = Some (profileOf ''c'')" by simp
  from load_resolution [OF a b2 c2 _ e, of demoHost] n2
  obtain p where p: "map_of ?ps (namesOf demoHost ?ps ! (nat (digitsValue ''2'') - 1)) = Some p"
    and run2: "command_execute_before demoHost ''oai'' ''load 2'' ?s =
                 (Inr (), ?s\<lparr>events := events ?s @
                    [Exists STORAGE_PATH, ReadJson STORAGE_PATH,
                     AuthSet PROVIDER_ID (authBody (oauth p)),
                     ShowToast (activeToast demoHost
                        (namesOf demoHost ?ps ! (nat (digitsValue ''2'') - 1)) (oauth p))],
                    parts := []\<rparr>)"
    by (metis list.distinct(1))
  from p [unfolded v2 names'] have pb: "p = profileOf ''b''" by simp
  from load_resolution [OF a b4 c4 _ e, of demoHost] n4 m4
  have run4: "command_execute_before demoHost ''oai'' ''load 4'' ?s =
                 (Inr (), ?s\<lparr>events := events ?s @
                    [Exists STORAGE_PATH, ReadJson STORAGE_PATH,
                     ShowToast \<lparr>message = ErrorMessage ''Error: '' (ProfileNotFound ''4''),
                                variant = ''error'', duration = None\<rparr>],
                    parts := []\<rparr>)"
    by (metis list.distinct(1))
  from load_resolution [OF a bc cc _ e, of demoHost] nc mc
  have runc: "command_execute_before demoHost ''oai'' ''load c'' ?s =
                 (Inr (), ?s\<lparr>events := events ?s @
                    [Exists STORAGE_PATH, ReadJson STORAGE_PATH,
                     AuthSet PROVIDER_ID (authBody (oauth (profileOf ''c''))),
                     ShowToast (activeToast demoHost ''c'' (oauth (profileOf ''c'')))],
                    parts := []\<rparr>)"
    by (metis list.distinct(1))
  show ?thesis
    using run2 [unfolded v2 names'] run4 runc
    by (simp add: pb tb tc ob oc ev PROVIDER_ID_def)
qed

text \<open>
  The claim as stated fails on the current revision. With the one profile \<^verbatim>\<open>4\<close>, the
  token \<^verbatim>\<open>4\<close> is an ordinal out of range for the specification and must fail, but the
  handler activates the profile named \<^verbatim>\<open>4\<close>.
\<close>

theorem selector_differs_from_specification:
  "spec_resolve (namesOf demoHost [(''4'', profileOf ''4'')]) ''4'' = None \<and>
   command_execute_before demoHost ''oai'' ''load 4'' (stateWith [''4'']) =
     (Inr (),
      (stateWith [''4''])
        \<lparr>events :=
           [Exists STORAGE_PATH, ReadJson STORAGE_PATH, AuthSet ''openai'' (authBody storedCred),
            ShowToast \<lparr>message = Plain ''Active: 4'', variant = ''success'', duration = None\<rparr>],
         parts := []\<rparr>)"
  by code_simp

text \<open>
  A token that starts with digits and goes on with other characters is read by
  \<^verbatim>\<open>parseInt\<close> as the number it starts with: over the names a, b, c the token
  \<^verbatim>\<open>2abc\<close> activates b, and \<^verbatim>\<open>del 2abc\<close> removes b.
\<close>

lemma numeric_prefix_read_as_ordinal:
  "command_execute_before demoHost ''oai'' ''load 2abc'' (stateWith [''c'', ''a'', ''b'']) =
     (Inr (),
      (stateWith [''c'', ''a'', ''b''])
        \<lparr>events :=
           [Exists STORAGE_PATH, ReadJson STORAGE_PATH, AuthSet ''openai'' (authBody storedCred),
            ShowToast \<lparr>message = Plain ''Active: b'', variant = ''success'', duration = None\<rparr>],
         parts := []\<rparr>) \<and>
   map (\<lambda>e. case e of ShowToast t \<Rightarrow> message t | _ \<Rightarrow> Plain [])
     (events (snd (command_execute_before demoHost ''oai'' ''del 2abc'' (stateWith [''c'', ''a'', ''b''])))) =
     [Plain [], Plain [], Plain [], Plain (''Removed profile '' @ quote @ ''b'' @ quote)]"
  by code_simp

text \<open>
  A token that names a member every object inherits, such as \<^verbatim>\<open>constructor\<close>, is found by
  the look-up although the vault has no such profile: \<^verbatim>\<open>load constructor\<close> passes the
  not-found test and fails on \<^verbatim>\<open>profile.oauth.refresh\<close> with a TypeError, \<^verbatim>\<open>del constructor\<close>
  writes the file back unchanged and reports a removal, and \<^verbatim>\<open>save constructor\<close> is refused
  as a name already taken.
\<close>

lemma inherited_member_found_by_lookup:
  "command_execute_before demoHost ''oai'' ''load constructor'' (stateWith [''work'']) =
     (Inr (),
      (stateWith [''work''])
        \<lparr>events :=
           [Exists STORAGE_PATH, ReadJson STORAGE_PATH,
            ShowToast \<lparr>message = ErrorMessage ''Error: '' TypeError, variant = ''error'',
                       duration = None\<rparr>],
         parts := []\<rparr>) \<and>
   events (snd (command_execute_before demoHost ''oai'' ''del constructor'' (stateWith [''work'']))) =
     [Exists STORAGE_PATH, ReadJson STORAGE_PATH,
      WriteJson STORAGE_PATH (vaultDoc [(''work'', profileOf ''work'')]),
      ShowToast \<lparr>message = Plain (''Removed profile '' @ quote @ ''constructor'' @ quote),
                 variant = ''success'', duration = None\<rparr>] \<and>
   events (snd (command_execute_before demoHost ''oai'' ''save constructor'' (stateWith [''work'']))) =
     [Exists AUTH_PATH, ReadJson AUTH_PATH, Exists STORAGE_PATH, ReadJson STORAGE_PATH,
      ShowToast \<lparr>message = ErrorMessage ''Error: '' (ProfileExists ''constructor''),
                 variant = ''error'', duration = None\<rparr>]"
  by code_simp

text \<open>
  In \<^verbatim>\<open>src/plugins/openai-multi.ts\<close> the selector is the round-trip test; there a numeric
  token is never a name: with the one profile \<^verbatim>\<open>0\<close>, the token \<^verbatim>\<open>0\<close> is an invalid selection.
\<close>

lemma round_trip_selector_in_oldest_revision:
  "fst (command_execute_before_r1 demoHost ''oai'' ''0'' (stateWith [''0''])) = Inl (InvalidSelection ''0'') \<and>
   fst (command_execute_before_r1 demoHost ''oai'' ''1'' (stateWith [''0''])) = Inr ()"
  by code_simp

subsection \<open>C4: what activation writes\<close>

text \<open>
  C4. Activating a stored profile calls \<^verbatim>\<open>client.auth.set\<close> once, for the provider
  \<^verbatim>\<open>openai\<close>, with a body that holds the tag \<^verbatim>\<open>type: "oauth"\<close>, the profile's \<^verbatim>\<open>refresh\<close>,
  \<^verbatim>\<open>access\<close> and \<^verbatim>\<open>expires\<close>, and \<^verbatim>\<open>enterpriseUrl\<close> only when the profile has a non-empty
  one; it has no \<^verbatim>\<open>accountId\<close> and no \<^verbatim>\<open>email\<close> key, and no key beyond those five. The
  two older revisions build the same body in their activate branch.
\<close>

theorem activation_writes_supported_fields:
  assumes "toLowerCase (stripSlash (trim command)) = COMMAND"
      and "toLowerCase (nth_or (parseArgs arguments) 0 []) = ''load''"
      and "nth_or (parseArgs arguments) 1 [] = tok" "tok \<noteq> []"
      and "storage_file s = Content d \<and> getProp d ''version'' = Some (JNum 1) \<and>
           getProp d ''profiles'' = Some (JObj (encodeProfiles ps))"
      and "map_of ps (resolveByParseInt (namesOf h ps) tok) = Some p"
  shows "command_execute_before h command arguments s =
           (Inr (), s\<lparr>events := events s @
               [Exists STORAGE_PATH, ReadJson STORAGE_PATH, AuthSet PROVIDER_ID (authBody (oauth p)),
                ShowToast (activeToast h (resolveByParseInt (namesOf h ps) tok) (oauth p))],
              parts := []\<rparr>) \<and>
         map_of (authBody (oauth p)) ''type'' = Some (JStr ''oauth'') \<and>
         map_of (authBody (oauth p)) ''refresh'' = Some (JStr (refresh (oauth p))) \<and>
         map_of (authBody (oauth p)) ''access'' = Some (JStr (access (oauth p))) \<and>
         map_of (authBody (oauth p)) ''expires'' = Some (JNum (expires (oauth p))) \<and>
         map_of (authBody (oauth p)) ''enterpriseUrl'' =
           (case enterpriseUrl (oauth p) of
              None \<Rightarrow> None
            | Some u \<Rightarrow> if u = [] then None else Some (JStr u)) \<and>
         map_of (authBody (oauth p)) ''accountId'' = None \<and>
         map_of (authBody (oauth p)) ''email'' = None \<and>
         fst ` set (authBody (oauth p)) \<subseteq>
           {''type'', ''refresh'', ''access'', ''expires'', ''enterpriseUrl''}"
  using load_run_found [OF assms]
  by (auto simp: authBody_def split: option.splits)

text \<open>\<^verbatim>\<open>/oai load work\<close>: the stored credential has an \<^verbatim>\<open>accountId\<close>, the body has none.\<close>

theorem activation_writes_supported_fields_witness:
  "command_execute_before demoHost ''/oai'' ''load work'' (stateWith [''work'']) =
     (Inr (),
      (stateWith [''work''])
        \<lparr>events :=
           [Exists STORAGE_PATH, ReadJson STORAGE_PATH,
            AuthSet ''openai''
              [(''type'', JStr ''oauth''), (''refresh'', JStr ''r1''), (''access'', JStr ''a1''),
               (''expires'', JNum 1000)],
            ShowToast \<lparr>message = Plain ''Active: work'', variant = ''success'', duration = None\<rparr>],
         parts := []\<rparr>)"
proof -
  have a: "toLowerCase (stripSlash (trim ''/oai'')) = COMMAND" by code_simp
  have b: "toLowerCase (nth_or (parseArgs ''load work'') 0 []) = ''load''" by code_simp
  have c: "nth_or (parseArgs ''load work'') 1 [] = ''work''" by code_simp
  have d: "''work'' \<noteq> []" by simp
  have e: "storage_file (stateWith [''work'']) = Content (vaultDoc [(''work'', profileOf ''work'')]) \<and>
           getProp (vaultDoc [(''work'', profileOf ''work'')]) ''version'' = Some (JNum 1) \<and>
           getProp (vaultDoc [(''work'', profileOf ''work'')]) ''profiles'' =
             Some (JObj (encodeProfiles [(''work'', profileOf ''work'')]))"
    by (simp add: stateWith_def vaultDoc_holds)
  have f: "resolveByParseInt (namesOf demoHost [(''work'', profileOf ''work'')]) ''work'' = ''work''"
    by code_simp
  have g: "map_of [(''work'', profileOf ''work'')]
             (resolveByParseInt (namesOf demoHost [(''work'', profileOf ''work'')]) ''work'') =
           Some (profileOf ''work'')"
    by (simp add: f)
  have t: "activeToast demoHost ''work'' storedCred =
             \<lparr>message = Plain ''Active: work'', variant = ''success'', duration = None\<rparr>"
    by code_simp
  have body: "authBody storedCred =
      [(''type'', JStr ''oauth''), (''refresh'', JStr ''r1''), (''access'', JStr ''a1''),
               (''expires'', JNum 1000)]" by code_simp
  have o: "oauth (profileOf ''work'') = storedCred" by (simp add: profileOf_def)
  note run = activation_writes_supported_fields [OF a b c d e g, THEN conjunct1, unfolded f o t body]
  show ?thesis using run by (simp add: stateWith_def PROVIDER_ID_def)
qed

subsection \<open>C7: other commands\<close>

text \<open>
  In the current revision and in the oldest one, a command that is not the reserved one
  returns at once: no effect, the output untouched.
\<close>

lemma foreign_command_untouched:
  "(toLowerCase (stripSlash (trim command)) \<noteq> COMMAND \<longrightarrow>
      command_execute_before h command arguments s = (Inr (), s)) \<and>
   (command \<noteq> COMMAND \<longrightarrow> command_execute_before_r1 h command arguments s = (Inr (), s))"
  by (simp add: command_execute_before_def command_execute_before_r1_def io_defs)

text \<open>
  C7. The handler of \<^verbatim>\<open>src/unnamed/part_002\<close> shows its debug toast before it looks at the
  command name, so the command \<^verbatim>\<open>help\<close>, which is not the reserved one, gets a
  notification (and nothing else).
\<close>

theorem debug_toast_on_foreign_command:
  "command_execute_before_r2 h ''help'' arguments s =
     (Inr (),
      s\<lparr>events := events s @
           [ShowToast
              \<lparr>message = Plain ''OpenAIMultiAccountPlugin: command.execute.before called for command: help'',
               variant = ''info'', duration = Some 1000\<rparr>]\<rparr>)"
proof -
  have "toLowerCase (stripSlash (trim ''help'')) \<noteq> COMMAND" by code_simp
  then show ?thesis
    by (simp add: command_execute_before_r2_def io_defs)
qed

subsection \<open>C8: other verbs\<close>

text \<open>
  C8 (as amended). In the current revision, a first token that is, in lower case, none of
  the empty token, list, save, del and load gets the error toast for an unknown command
  and nothing else: no file is read or written and \<^verbatim>\<open>client.auth.set\<close> is not called.
\<close>

theorem unknown_verb_toast_only:
  assumes "toLowerCase (stripSlash (trim command)) = COMMAND"
      and "toLowerCase (nth_or (parseArgs arguments) 0 []) \<notin> {[], ''list'', ''save'', ''del'', ''load''}"
  shows "command_execute_before h command arguments s =
           (Inr (),
            s\<lparr>events := events s @
                 [ShowToast \<lparr>message = Plain ''Unknown command. Available: list, save, load, del'',
                            variant = ''error'', duration = Some 5000\<rparr>],
              parts := []\<rparr>)"
  by (simp add: dispatch_unknown [OF assms] unknown_action_def io_defs)

text \<open>\<^verbatim>\<open>/oai frobnicate work\<close>.\<close>

theorem unknown_verb_toast_only_witness:
  "command_execute_before demoHost ''oai'' ''frobnicate work'' (stateWith [''work'']) =
     (Inr (),
      (stateWith [''work''])
        \<lparr>events :=
           [ShowToast \<lparr>message = Plain ''Unknown command. Available: list, save, load, del'',
                      variant = ''error'', duration = Some 5000\<rparr>],
         parts := []\<rparr>)"
proof -
  have a: "toLowerCase (stripSlash (trim ''oai'')) = COMMAND" by code_simp
  have b: "toLowerCase (nth_or (parseArgs ''frobnicate work'') 0 []) \<notin>
             {[], ''list'', ''save'', ''del'', ''load''}" by code_simp
  from unknown_verb_toast_only [OF a b, of demoHost "stateWith [''work'']"]
  show ?thesis by (simp add: stateWith_def)
qed

text \<open>
  The claim as stated fails on \<^verbatim>\<open>src/plugins/openai-multi.ts\<close> (and on
  \<^verbatim>\<open>src/unnamed/part_002\<close>), where every first token that is no other verb is a profile
  selector: \<^verbatim>\<open>/oai work\<close> sets the live credential to the profile \<^verbatim>\<open>work\<close>.
\<close>

theorem other_token_activates_in_oldest_revision:
  "command_execute_before_r1 demoHost ''oai'' ''work'' (stateWith [''work'']) =
     (Inr (),
      (stateWith [''work''])
        \<lparr>events :=
           [Exists STORAGE_PATH, ReadJson STORAGE_PATH,
            AuthSet ''openai''
              [(''type'', JStr ''oauth''), (''refresh'', JStr ''r1''), (''access'', JStr ''a1''),
               (''expires'', JNum 1000)],
            ShowToast \<lparr>message = Plain ''OpenAI active profile: work'', variant = ''success'',
                       duration = None\<rparr>],
         parts :=
           [TextPart (Plain (''Switched active OpenAI account to profile '' @ quote @ ''work'' @ quote))]\<rparr>)"
  by code_simp

text \<open>The same run on \<^verbatim>\<open>src/unnamed/part_002\<close>, after its debug toast.\<close>

lemma other_token_activates_in_part_002:
  "fst (command_execute_before_r2 demoHost ''oai'' ''work'' (stateWith [''work''])) = Inr () \<and>
   events (snd (command_execute_before_r2 demoHost ''oai'' ''work'' (stateWith [''work'']))) =
     [ShowToast \<lparr>message = Plain ''OpenAIMultiAccountPlugin: command.execute.before called for command: oai'',
                 variant = ''info'', duration = Some 1000\<rparr>,
      Exists STORAGE_PATH, ReadJson STORAGE_PATH,
      AuthSet ''openai''
        [(''type'', JStr ''oauth''), (''refresh'', JStr ''r1''), (''access'', JStr ''a1''),
         (''expires'', JNum 1000)],
      ShowToast \<lparr>message = Plain ''Active: work'', variant = ''success'', duration = None\<rparr>]"
  by code_simp

subsection \<open>C9: the chat output\<close>

text \<open>
  C9 (as amended). In the current revision and in \<^verbatim>\<open>src/unnamed/part_002\<close>, every run of
  the reserved command returns normally with the chat output empty and a toast as its
  last effect; an error caught at the boundary is shown as one error toast.
\<close>

theorem output_left_empty:
  assumes "toLowerCase (stripSlash (trim command)) = COMMAND"
  shows "(\<forall>r s'. command_execute_before h command arguments s = (r, s') \<longrightarrow>
            r = Inr () \<and> parts s' = [] \<and> (\<exists>evs t. events s' = events s @ evs @ [ShowToast t])) \<and>
         (\<forall>r s'. command_execute_before_r2 h command arguments s = (r, s') \<longrightarrow>
            r = Inr () \<and> parts s' = [] \<and> (\<exists>evs t. events s' = events s @ evs @ [ShowToast t])) \<and>
         (\<forall>e s1. errorBoundary e s1 =
            (Inr (),
             s1\<lparr>events := events s1 @
                  [ShowToast \<lparr>message = ErrorMessage ''Error: '' e, variant = ''error'',
                             duration = None\<rparr>],
                parts := []\<rparr>))"
proof -
  have cur: "r = Inr () \<and> parts s' = [] \<and> (\<exists>evs t. events s' = events s @ evs @ [ShowToast t])"
    if run: "command_execute_before h command arguments s = (r, s')" for r s'
    by (rule catch_clean [OF body_clean run [unfolded dispatch_body [OF assms]]])
  let ?s0 = "s\<lparr>events := events s @
                 [ShowToast \<lparr>message = Plain (''OpenAIMultiAccountPlugin: command.execute.before called for command: '' @ command),
                             variant = ''info'', duration = Some 1000\<rparr>]\<rparr>"
  have old: "r = Inr () \<and> parts s' = [] \<and> (\<exists>evs t. events s' = events s @ evs @ [ShowToast t])"
    if run: "command_execute_before_r2 h command arguments s = (r, s')" for r s'
  proof -
    have "r = Inr () \<and> parts s' = [] \<and> (\<exists>evs t. events s' = events ?s0 @ evs @ [ShowToast t])"
      by (rule catch_clean [OF body_clean_r2 run [unfolded dispatch_body_r2 [OF assms]]])
    then show ?thesis by auto
  qed
  have boundary: "errorBoundary e s1 =
            (Inr (),
             s1\<lparr>events := events s1 @
                  [ShowToast \<lparr>message = ErrorMessage ''Error: '' e, variant = ''error'',
                             duration = None\<rparr>],
                parts := []\<rparr>)" for e s1
    by (simp add: errorBoundary_def io_bind_def emit_def showToast_def set_parts_def)
  show ?thesis
    using cur old boundary by blast
qed

text \<open>A failing delete in the current revision, a save in \<^verbatim>\<open>part_002\<close>.\<close>

theorem output_left_empty_witness:
  "fst (command_execute_before demoHost ''/OAI'' ''del nosuch'' (stateWith [''work''])) = Inr () \<and>
   parts (snd (command_execute_before demoHost ''/OAI'' ''del nosuch'' (stateWith [''work'']))) = [] \<and>
   fst (command_execute_before_r2 demoHost ''/OAI'' ''save home'' (stateWith [''work''])) = Inr () \<and>
   parts (snd (command_execute_before_r2 demoHost ''/OAI'' ''save home'' (stateWith [''work'']))) = []"
proof -
  have a: "toLowerCase (stripSlash (trim ''/OAI'')) = COMMAND" by code_simp
  from output_left_empty [OF a, of demoHost "''del nosuch''" "stateWith [''work'']"]
       output_left_empty [OF a, of demoHost "''save home''" "stateWith [''work'']"]
  show ?thesis
    by (metis prod.collapse)
qed

text \<open>
  The claim as stated fails on \<^verbatim>\<open>src/plugins/openai-multi.ts\<close>: a save writes its result
  to the chat output, and an error is written to the chat output and thrown again.
\<close>

theorem output_text_in_oldest_revision:
  "parts (snd (command_execute_before_r1 demoHost ''oai'' ''save home'' (stateWith [''work'']))) =
     [TextPart (Plain (''Saved profile '' @ quote @ ''home'' @ quote
                       @ '' to /home/u/.config/opencode/openai-accounts.json''))] \<and>
   command_execute_before_r1 demoHost ''oai'' ''nosuch'' (stateWith [''work'']) =
     (Inl (UnknownProfile ''nosuch''),
      (stateWith [''work''])
        \<lparr>events :=
           [Exists STORAGE_PATH, ReadJson STORAGE_PATH,
            ShowToast \<lparr>message = Plain ''OpenAI multi-account error'', variant = ''error'',
                       duration = None\<rparr>],
         parts :=
           [TextPart (ErrorMessage ''OpenAI multi-account error: '' (UnknownProfile ''nosuch''))]\<rparr>)"
  by code_simp

end
